theory Spec2Isabelle
  imports Main "HOL-Library.Char_ord" "HOL-Library.List_Lexorder" "HOL-Library.Multiset"
begin

text \<open>
  The commissaire service framework: the storage service's registration of store handlers
  and its view of the routing table (\<open>commissaire_service/storage/__init__.py\<close>), the
  supervisor's polling loop and the dispatch, reply and request paths of the protocol
  engine (\<open>commissaire_service/service/__init__.py\<close>). Exceptions are values, the
  calls on the message bus are a trace of events, and what other packages provide
  (plugin loading, the JSON parser, the handlers of a service) is a parameter.
\<close>

section \<open>Values, exceptions and dictionaries\<close>

text \<open>
  Message bodies, parameters and configuration entries are JSON values after
  deserialisation. A Python dict is an association list in insertion order; numbers are
  restricted to integers.
\<close>

datatype json =
    JNull
  | JBool bool
  | JNum int
  | JStr string
  | JList "json list"
  | JDict "(string \<times> json) list"

text \<open>
  An exception class is known by its defining module and its \<open>__name__\<close>;
  \<open>cls_is_Exception\<close> says whether it derives from \<open>Exception\<close> (what
  \<open>except Exception\<close> catches). An exception value carries its class and \<open>str(error)\<close>.
\<close>

record pyclass =
  cls_module :: string
  cls_name :: string
  cls_is_Exception :: bool

record exc =
  exc_class :: pyclass
  exc_text :: string

definition builtin_exc :: "string \<Rightarrow> pyclass" where
  "builtin_exc n = \<lparr>cls_module = ''builtins'', cls_name = n, cls_is_Exception = True\<rparr>"

definition AttributeError :: pyclass where "AttributeError = builtin_exc ''AttributeError''"
definition KeyError :: pyclass where "KeyError = builtin_exc ''KeyError''"
definition IndexError :: pyclass where "IndexError = builtin_exc ''IndexError''"
definition TypeError :: pyclass where "TypeError = builtin_exc ''TypeError''"

definition ConfigurationError :: pyclass where
  "ConfigurationError =
     \<lparr>cls_module = ''commissaire.util.config'', cls_name = ''ConfigurationError'',
      cls_is_Exception = True\<rparr>"

definition JSONDecodeError :: pyclass where
  "JSONDecodeError =
     \<lparr>cls_module = ''json.decoder'', cls_name = ''JSONDecodeError'', cls_is_Exception = True\<rparr>"

definition raise :: "pyclass \<Rightarrow> string \<Rightarrow> exc" where
  "raise c t = \<lparr>exc_class = c, exc_text = t\<rparr>"

text \<open>\<open>str(type(error))\<close>: builtin classes print without their module.\<close>

definition str_type :: "pyclass \<Rightarrow> string" where
  "str_type c =
     ''<class '' @ [CHR 0x27] @
     (if cls_module c = ''builtins'' then cls_name c else cls_module c @ ''.'' @ cls_name c) @
     [CHR 0x27] @ ''>''"

text \<open>\<open>type(v).__name__\<close> of a deserialised value.\<close>

fun type_name :: "json \<Rightarrow> string" where
  "type_name JNull = ''NoneType''"
| "type_name (JBool _) = ''bool''"
| "type_name (JNum _) = ''int''"
| "type_name (JStr _) = ''str''"
| "type_name (JList _) = ''list''"
| "type_name (JDict _) = ''dict''"

text \<open>Dictionary operations: \<open>d.get(k)\<close>, \<open>k in d\<close>, and the remainder after \<open>d.pop(k)\<close>.\<close>

definition dict_get :: "(string \<times> json) list \<Rightarrow> string \<Rightarrow> json option" where
  "dict_get kvs k = map_of kvs k"

definition dict_has :: "(string \<times> json) list \<Rightarrow> string \<Rightarrow> bool" where
  "dict_has kvs k = (map_of kvs k \<noteq> None)"

definition dict_del :: "string \<Rightarrow> (string \<times> json) list \<Rightarrow> (string \<times> json) list" where
  "dict_del k kvs = filter (\<lambda>kv. fst kv \<noteq> k) kvs"

text \<open>\<open>str(KeyError(k))\<close> is the repr of the key.\<close>

definition key_error :: "string \<Rightarrow> exc" where
  "key_error k = raise KeyError ([CHR 0x27] @ k @ [CHR 0x27])"

text \<open>
  Iterating a value (\<open>for x in v\<close>, \<open>*v\<close>): a list yields its items, a string its
  characters, a dict its keys; anything else raises \<open>TypeError\<close>.
\<close>

definition py_iter :: "json \<Rightarrow> exc + json list" where
  "py_iter v =
     (case v of
        JList xs \<Rightarrow> Inr xs
      | JStr s \<Rightarrow> Inr (map (\<lambda>c. JStr [c]) s)
      | JDict kvs \<Rightarrow> Inr (map (\<lambda>kv. JStr (fst kv)) kvs)
      | _ \<Rightarrow> Inl (raise TypeError
                ([CHR 0x27] @ type_name v @ [CHR 0x27] @ '' object is not iterable'')))"

section \<open>Shell-style patterns (fnmatch)\<close>

text \<open>
  \<open>fnmatch.filter(names, pat)\<close> keeps the names the pattern matches in full:
  \<open>*\<close> matches any run of characters, \<open>?\<close> one character, \<open>[seq]\<close> one character of
  \<open>seq\<close> (with ranges \<open>a-z\<close>), \<open>[!seq]\<close> one character not in it; a \<open>[\<close> without a
  closing \<open>]\<close> is a literal. Names are compared as they are (POSIX \<open>normcase\<close>).
\<close>

datatype class_item = Single char | Range char char

datatype glob_tok = GStar | GAny | GLit char | GClass bool "class_item list"

fun class_items :: "string \<Rightarrow> class_item list" where
  "class_items (c # d # e # rest) =
     (if d = CHR ''-'' then Range c e # class_items rest
      else Single c # class_items (d # e # rest))"
| "class_items (c # rest) = Single c # class_items rest"
| "class_items [] = []"

fun in_item :: "char \<Rightarrow> class_item \<Rightarrow> bool" where
  "in_item x (Single c) = (x = c)"
| "in_item x (Range lo hi) = (lo \<le> x \<and> x \<le> hi)"

text \<open>The text up to the next \<open>]\<close> and the text after it.\<close>

fun until_close :: "string \<Rightarrow> (string \<times> string) option" where
  "until_close [] = None"
| "until_close (c # cs) =
     (if c = CHR '']'' then Some ([], cs)
      else (case until_close cs of None \<Rightarrow> None | Some (a, b) \<Rightarrow> Some (c # a, b)))"

text \<open>
  After a \<open>[\<close>: an optional \<open>!\<close>, then an optional \<open>]\<close> that belongs to the set, then the
  scan for the closing \<open>]\<close>. Gives the negation flag, the set's text and the rest.
\<close>

definition bracket :: "string \<Rightarrow> (bool \<times> string \<times> string) option" where
  "bracket s =
     (let neg = (s \<noteq> [] \<and> hd s = CHR ''!'');
          s1 = (if neg then tl s else s);
          lead = (s1 \<noteq> [] \<and> hd s1 = CHR '']'');
          s2 = (if lead then tl s1 else s1)
      in case until_close s2 of
           None \<Rightarrow> None
         | Some (stuff, rest) \<Rightarrow> Some (neg, (if lead then '']'' else []) @ stuff, rest))"

lemma until_close_shorter: "until_close s = Some (a, b) \<Longrightarrow> length b < length s"
  by (induction s arbitrary: a b) (auto split: if_splits option.splits)

lemma bracket_shorter: "bracket s = Some (n, a, b) \<Longrightarrow> length b < length s"
  by (cases s; cases "tl s")
     (auto simp: bracket_def Let_def split: if_splits option.splits
           dest!: until_close_shorter)

function translate :: "string \<Rightarrow> glob_tok list" where
  "translate [] = []"
| "translate (c # cs) =
     (if c = CHR ''*'' then GStar # translate cs
      else if c = CHR ''?'' then GAny # translate cs
      else if c = CHR ''['' then
        (case bracket cs of
           None \<Rightarrow> GLit c # translate cs
         | Some (neg, stuff, rest) \<Rightarrow> GClass neg (class_items stuff) # translate rest)
      else GLit c # translate cs)"
  by pat_completeness auto
termination
  by (relation "measure length") (auto dest: bracket_shorter)

fun glob_match :: "glob_tok list \<Rightarrow> string \<Rightarrow> bool" where
  "glob_match [] s = (s = [])"
| "glob_match (GStar # ts) [] = glob_match ts []"
| "glob_match (GStar # ts) (x # xs) = (glob_match ts (x # xs) \<or> glob_match (GStar # ts) xs)"
| "glob_match (GAny # ts) [] = False"
| "glob_match (GAny # ts) (x # xs) = glob_match ts xs"
| "glob_match (GLit c # ts) [] = False"
| "glob_match (GLit c # ts) (x # xs) = (x = c \<and> glob_match ts xs)"
| "glob_match (GClass neg items # ts) [] = False"
| "glob_match (GClass neg items # ts) (x # xs) =
     ((list_ex (in_item x) items \<noteq> neg) \<and> glob_match ts xs)"

definition fnmatchcase :: "string \<Rightarrow> string \<Rightarrow> bool" where
  "fnmatchcase name pat = glob_match (translate pat) name"

definition fnmatch_filter :: "string list \<Rightarrow> string \<Rightarrow> string list" where
  "fnmatch_filter names pat = filter (\<lambda>n. fnmatchcase n pat) names"

section \<open>The storage service\<close>

text \<open>
  Model classes and store-handler classes are known by their \<open>__name__\<close>. The catalog
  \<open>_model_types\<close> maps attribute names of \<open>commissaire.models\<close> to model classes.
  What the service takes from other packages is a field of the service:
  \<open>import_plugin\<close> (resolves the \<open>name\<close> of a configuration entry to a handler class
  or raises), \<open>py_repr\<close> (the interpreter's rendering of a value that is not a string),
  \<open>json_loads\<close> (the JSON parser: \<open>Inl\<close> is the message of its
  \<open>JSONDecodeError\<close>) and \<open>model_new\<close> (the model classes' constructor \<open>new\<close>).
\<close>

datatype model_type = ModelType (mt_name: string)

datatype handler_type = HandlerType (ht_name: string)

record model =
  model_class :: model_type
  model_fields :: "(string \<times> json) list"

type_synonym registration = "handler_type \<times> json \<times> model_type list"

record storage_service =
  model_types :: "(string \<times> model_type) list"
  import_plugin :: "json \<Rightarrow> exc + handler_type"
  py_repr :: "json \<Rightarrow> string"
  json_loads :: "string \<Rightarrow> string + json"
  model_new :: "model_type \<Rightarrow> (string \<times> json) list \<Rightarrow> exc + model"
  manager :: "registration list"

text \<open>\<open>'{}'.format(v)\<close>: a string is inserted as it is.\<close>

definition format_value :: "storage_service \<Rightarrow> json \<Rightarrow> string" where
  "format_value svc v = (case v of JStr s \<Rightarrow> s | _ \<Rightarrow> py_repr svc v)"

text \<open>
  Modelled from the spec: \<open>StoreHandlerManager\<close> (module
  \<open>commissaire_service.storage.storehandlermanager\<close>) is not among the sources. Its
  registrations are an append-only sequence of (handler type, config, model types), and
  \<open>list_store_handlers\<close> returns them in registration order.
\<close>

definition manager_register ::
  "handler_type \<Rightarrow> json \<Rightarrow> model_type list \<Rightarrow> registration list \<Rightarrow> registration list" where
  "manager_register ht config mts regs = regs @ [(ht, config, mts)]"

definition list_store_handlers :: "registration list \<Rightarrow> registration list" where
  "list_store_handlers regs = regs"

text \<open>
  \<open>matched_types.update(...)\<close> on a Python set: each new element is added once. The
  set is kept as a duplicate-free list; Python's iteration order of a set is unspecified,
  and no statement below depends on the order chosen here.
\<close>

definition set_update :: "'a list \<Rightarrow> 'a list \<Rightarrow> 'a list" where
  "set_update acc xs = fold (\<lambda>x a. if x \<in> set a then a else a @ [x]) xs acc"

text \<open>\<open>[self._model_types[name] for name in matches]\<close>.\<close>

fun lookup_types :: "(string \<times> model_type) list \<Rightarrow> string list \<Rightarrow> exc + model_type list" where
  "lookup_types catalog [] = Inr []"
| "lookup_types catalog (n # ns) =
     (case map_of catalog n of
        None \<Rightarrow> Inl (key_error n)
      | Some t \<Rightarrow> (case lookup_types catalog ns of Inl e \<Rightarrow> Inl e | Inr ts \<Rightarrow> Inr (t # ts)))"

text \<open>The loop over the patterns of one entry (lines 98 to 104).\<close>

fun match_patterns ::
  "(string \<times> model_type) list \<Rightarrow> json list \<Rightarrow> model_type list \<Rightarrow> exc + model_type list" where
  "match_patterns catalog [] matched_types = Inr matched_types"
| "match_patterns catalog (p # ps) matched_types =
     (case p of
        JStr pattern \<Rightarrow>
          (let matches = fnmatch_filter (map fst catalog) pattern
           in if matches = [] then
                Inl (raise ConfigurationError (''No match for model: '' @ pattern))
              else (case lookup_types catalog matches of
                      Inl e \<Rightarrow> Inl e
                    | Inr ts \<Rightarrow> match_patterns catalog ps (set_update matched_types ts)))
      | _ \<Rightarrow> Inl (raise TypeError
                (''expected str, bytes or os.PathLike object, not '' @ type_name p)))"

text \<open>
  \<open>register_store_handler\<close> returns its outcome, the configuration argument as the
  call leaves it (the dict is mutated in place by \<open>pop\<close>), and the service.
\<close>

definition register_store_handler ::
  "storage_service \<Rightarrow> json \<Rightarrow> (exc + unit) \<times> json \<times> storage_service" where
  "register_store_handler svc config =
     (case config of
        JDict kvs \<Rightarrow>
          (case dict_get kvs ''name'' of
             None \<Rightarrow>
               (Inl (raise ConfigurationError
                       (''Store handler configuration missing '' @ [CHR 0x22] @ ''name'' @
                        [CHR 0x22] @ '' key: '' @
                        format_value svc config)),
                config, svc)
           | Some module_name \<Rightarrow>
               (let kvs1 = dict_del ''name'' kvs in
                case import_plugin svc module_name of
                  Inl e \<Rightarrow> (Inl e, JDict kvs1, svc)
                | Inr handler_type \<Rightarrow>
                    (let models = (case dict_get kvs1 ''models'' of
                                     None \<Rightarrow> JList [JStr ''*'']
                                   | Some m \<Rightarrow> m);
                         kvs2 = dict_del ''models'' kvs1
                     in case py_iter models of
                          Inl e \<Rightarrow> (Inl e, JDict kvs2, svc)
                        | Inr patterns \<Rightarrow>
                            (case match_patterns (model_types svc) patterns [] of
                               Inl e \<Rightarrow> (Inl e, JDict kvs2, svc)
                             | Inr matched_types \<Rightarrow>
                                 (Inr (), JDict kvs2,
                                  svc\<lparr>manager := manager_register handler_type (JDict kvs2)
                                                   matched_types (manager svc)\<rparr>)))))
      | _ \<Rightarrow>
          (Inl (raise ConfigurationError
                  (''Store handler format must be a JSON object, got a '' @
                   type_name config @ '' instead: '' @ format_value svc config)),
           config, svc))"

text \<open>
  The loop of \<open>__init__\<close> over the configured entries: the first exception ends it.
  Returns the entries as the calls leave them.
\<close>

fun register_all ::
  "storage_service \<Rightarrow> json list \<Rightarrow> (exc + unit) \<times> json list \<times> storage_service" where
  "register_all svc [] = (Inr (), [], svc)"
| "register_all svc (c # cs) =
     (case register_store_handler svc c of
        (Inl e, c', svc') \<Rightarrow> (Inl e, c' # cs, svc')
      | (Inr u, c', svc') \<Rightarrow>
          (case register_all svc' cs of (r, cs', svc'') \<Rightarrow> (r, c' # cs', svc'')))"

text \<open>
  \<open>_build_model\<close>. \<open>JSONDecodeError.__init__\<close> takes \<open>(msg, doc, pos)\<close>: the call
  with the message alone on line 124 raises \<open>TypeError\<close> while building the exception.
\<close>

definition build_model :: "storage_service \<Rightarrow> string \<Rightarrow> json \<Rightarrow> exc + model" where
  "build_model svc model_type_name model_json_data =
     (let parsed =
            (case model_json_data of
               JStr s \<Rightarrow>
                 (case json_loads svc s of
                    Inl msg \<Rightarrow> Inl (raise JSONDecodeError msg)
                  | Inr v \<Rightarrow>
                      (case v of
                         JDict kvs \<Rightarrow> Inr v
                       | _ \<Rightarrow> Inl (raise TypeError
                                 (''__init__() missing 2 required positional arguments: '' @
                                  [CHR 0x27] @ ''doc'' @ [CHR 0x27] @ '' and '' @
                                  [CHR 0x27] @ ''pos'' @ [CHR 0x27]))))
             | _ \<Rightarrow> Inr model_json_data)
      in case parsed of
           Inl e \<Rightarrow> Inl e
         | Inr data \<Rightarrow>
             (case map_of (model_types svc) model_type_name of
                None \<Rightarrow> Inl (key_error model_type_name)
              | Some model_type \<Rightarrow>
                  (case data of
                     JDict kvs \<Rightarrow> model_new svc model_type kvs
                   | _ \<Rightarrow> Inl (raise TypeError
                             (''argument after ** must be a mapping, not '' @
                              type_name data)))))"

text \<open>\<open>on_list_store_handlers\<close>: one dict per registration, the type names sorted.\<close>

definition on_list_store_handlers :: "storage_service \<Rightarrow> json" where
  "on_list_store_handlers svc =
     JList (map (\<lambda>(handler_type, config, mts).
                   JDict [(''handler_type'', JStr (ht_name handler_type)),
                          (''config'', config),
                          (''model_types'', JList (map JStr (sort (map mt_name mts))))])
                (list_store_handlers (manager svc)))"

text \<open>
  A catalog and a service to evaluate on: three model classes, a plugin loader that
  resolves every string to the class of that name, and the JSON parser at the payloads
  used below (\<open>json.loads('[1, 2]')\<close> is the list \<open>[1, 2]\<close>,
  \<open>json.loads('{}')\<close> the empty dict).
\<close>

definition example_catalog :: "(string \<times> model_type) list" where
  "example_catalog =
     [(''NodeModel'', ModelType ''NodeModel''),
      (''NetworkModel'', ModelType ''NetworkModel''),
      (''ClusterModel'', ModelType ''ClusterModel'')]"

definition example_service :: storage_service where
  "example_service =
     \<lparr>model_types = example_catalog,
      import_plugin = (\<lambda>n. case n of
                              JStr s \<Rightarrow> Inr (HandlerType s)
                            | _ \<Rightarrow> Inl (raise ConfigurationError ''Invalid module name'')),
      py_repr = (\<lambda>v. ''...''),
      json_loads = (\<lambda>s. if s = ''[1, 2]'' then Inr (JList [JNum 1, JNum 2])
                         else if s = ''{}'' then Inr (JDict [])
                         else Inl ''Expecting value''),
      model_new = (\<lambda>t kvs. Inr \<lparr>model_class = t, model_fields = kvs\<rparr>),
      manager = []\<rparr>"

section \<open>The process supervisor\<close>

text \<open>
  \<open>ServiceManager\<close>: \<open>_asyncs\<close> is the list of tracked tasks. A task (the
  \<open>AsyncResult\<close> of one \<open>apply_async\<close>) is identified by its launch number, so
  \<open>launched\<close> counts the calls of \<open>_start_process\<close> over the manager's lifetime;
  \<open>warnings\<close> are the tasks reported by \<open>logger.warn\<close> as finished and replaced.
\<close>

record service_manager =
  process_count :: nat
  asyncs :: "nat list"
  launched :: nat
  warnings :: "nat list"

definition init_manager :: "nat \<Rightarrow> service_manager" where
  "init_manager n = \<lparr>process_count = n, asyncs = [], launched = 0, warnings = []\<rparr>"

definition start_process :: "service_manager \<Rightarrow> service_manager" where
  "start_process m = m\<lparr>asyncs := asyncs m @ [launched m], launched := launched m + 1\<rparr>"

text \<open>\<open>list.index(x)\<close> for an element of the list, and the list after \<open>pop(idx)\<close>.\<close>

definition index_of :: "'a \<Rightarrow> 'a list \<Rightarrow> nat" where
  "index_of x xs = length (takeWhile (\<lambda>y. y \<noteq> x) xs)"

definition pop :: "nat \<Rightarrow> 'a list \<Rightarrow> 'a list" where
  "pop idx xs = take idx xs @ drop (Suc idx) xs"

text \<open>
  One pass of \<open>for process_result in self._asyncs\<close> (lines 100 to 107). The list is
  changed under the loop, so the loop is Python's list iterator: a position \<open>i\<close> that
  advances by one while it is inside the current list. \<open>ready\<close> is what
  \<open>process_result.ready()\<close> answers during this pass. The result is \<open>Some\<close>
  of the manager the pass leaves; that every pass returns is proved below
  (\<open>poll_from_returns\<close>).
\<close>

partial_function (option) poll_from ::
  "(nat \<Rightarrow> bool) \<Rightarrow> nat \<Rightarrow> service_manager \<Rightarrow> service_manager option" where
  "poll_from ready i m =
     (if i < length (asyncs m) then
        (let process_result = asyncs m ! i in
         if ready process_result then
           (let idx = index_of process_result (asyncs m) in
            poll_from ready (i + 1)
              (start_process (m\<lparr>asyncs := pop idx (asyncs m),
                                warnings := warnings m @ [process_result]\<rparr>)))
         else poll_from ready (i + 1) m)
      else Some m)"

definition poll :: "(nat \<Rightarrow> bool) \<Rightarrow> service_manager \<Rightarrow> service_manager option" where
  "poll ready m = poll_from ready 0 m"

text \<open>
  \<open>run\<close>: \<open>process_count\<close> launches, then the passes, one per second, for ever.
  \<open>run_polls readys k\<close> is the manager after the first \<open>k\<close> passes, pass \<open>j\<close>
  (counted down from \<open>k\<close>) seeing \<open>readys j\<close>.
\<close>

definition run_start :: "service_manager \<Rightarrow> service_manager" where
  "run_start m = (start_process ^^ process_count m) m"

fun run_polls :: "(nat \<Rightarrow> nat \<Rightarrow> bool) \<Rightarrow> nat \<Rightarrow> service_manager \<Rightarrow> service_manager option" where
  "run_polls readys 0 m = Some m"
| "run_polls readys (Suc k) m =
     (case poll (readys (Suc k)) m of None \<Rightarrow> None | Some m' \<Rightarrow> run_polls readys k m')"

text \<open>
  The state the loop keeps: tracked tasks are distinct and were launched, as many are
  tracked as \<open>process_count\<close>, and every launch beyond the first \<open>process_count\<close>
  replaced a task reported as finished.
\<close>

definition supervised :: "service_manager \<Rightarrow> bool" where
  "supervised m \<longleftrightarrow>
     distinct (asyncs m) \<and> list_all (\<lambda>x. x < launched m) (asyncs m) \<and>
     length (asyncs m) = process_count m \<and>
     launched m = process_count m + length (warnings m)"

section \<open>The RPC protocol engine\<close>

text \<open>
  What the engine and the handlers do to the outside, in order: a bound method is called
  (\<open>Invoke\<close>), the inbound message is acknowledged (\<open>Ack\<close>), and the calls on the
  bus: a \<open>SimpleQueue\<close> is opened with its keyword arguments, \<open>put\<close>, \<open>close\<close>,
  \<open>producer.publish\<close> with routing key and reply address, \<open>get\<close> with \<open>block\<close>
  and \<open>timeout\<close>, and the acknowledgment of a reply taken from a reply queue
  (\<open>AckReply\<close>).
\<close>

datatype call_args = Keywords "(string \<times> json) list" | Positional "json list"

datatype event =
    Invoke string call_args
  | Ack
  | SimpleQueue string "(string \<times> json) list"
  | Put string json
  | Close string
  | Publish json string string
  | Get string bool nat
  | AckReply

text \<open>
  A handler is called with keyword or positional arguments next to the message. It is
  taken by what it does to the outside, the message it was handed included, and by what
  it returns or raises. Binding the arguments to its parameters is part of the handler.
\<close>

type_synonym handler = "call_args \<Rightarrow> event list \<times> (exc + json)"

text \<open>
  \<open>getattr(self, name)\<close> looks in the service's own class first (\<open>attributes\<close>), then
  in \<open>CommissaireService\<close>, then in what kombu's \<open>ConsumerMixin\<close> provides beyond
  that (\<open>mixin\<close>). \<open>class_name\<close> is the name of the service's class.
\<close>

record service =
  class_name :: string
  attributes :: "string \<Rightarrow> handler option"
  mixin :: "string \<Rightarrow> handler option"

text \<open>
  Of a message the engine reads \<open>delivery_info['routing_key']\<close> and
  \<open>properties.get('reply_to')\<close>.
\<close>

record message =
  routing_key :: string
  reply_to :: "string option"

text \<open>
  \<open>message.acknowledged\<close> and \<open>message.ack()\<close> after the events so far: a message
  that is acknowledged already raises \<open>MessageStateError\<close>.
\<close>

definition MessageStateError :: pyclass where
  "MessageStateError =
     \<lparr>cls_module = ''kombu.exceptions'', cls_name = ''MessageStateError'',
      cls_is_Exception = True\<rparr>"

definition acknowledged :: "event list \<Rightarrow> bool" where
  "acknowledged evs \<longleftrightarrow> Ack \<in> set evs"

definition ack :: "event list \<Rightarrow> event list \<times> exc option" where
  "ack evs =
     (if acknowledged evs then
        (evs, Some (raise MessageStateError ''Message already acknowledged with state: ACK''))
      else (evs @ [Ack], None))"

text \<open>
  The methods of \<open>CommissaireService\<close> whose names start with \<open>on_\<close>, as bound
  methods. \<open>on_message(body, message)\<close> (lines 178 to 190) logs and acknowledges the
  message. \<open>on_consume_ready\<close> and \<open>on_consume_end\<close> have no parameter \<open>message\<close>,
  so a call that passes \<open>message\<close> by keyword is a \<open>TypeError\<close>.
\<close>

definition arg_error :: "string \<Rightarrow> string \<Rightarrow> event list \<times> (exc + json)" where
  "arg_error name what = ([], Inl (raise TypeError (name @ ''() '' @ what)))"

definition on_message :: handler where
  "on_message args =
     (case args of
        Keywords kvs \<Rightarrow>
          (case filter (\<lambda>kv. fst kv \<noteq> ''body'') kvs of
             kv # rest \<Rightarrow>
               arg_error ''on_message''
                 (''got an unexpected keyword argument '' @ [CHR 0x27] @ fst kv @ [CHR 0x27])
           | [] \<Rightarrow>
               (if kvs = [] then
                  arg_error ''on_message''
                    (''missing 1 required positional argument: '' @
                     [CHR 0x27] @ ''body'' @ [CHR 0x27])
                else ([Ack], Inr JNull)))
      | Positional xs \<Rightarrow>
          (case xs of
             [] \<Rightarrow>
               arg_error ''on_message''
                 (''missing 1 required positional argument: '' @
                  [CHR 0x27] @ ''body'' @ [CHR 0x27])
           | [body] \<Rightarrow> ([Ack], Inr JNull)
           | _ \<Rightarrow>
               arg_error ''on_message''
                 (''got multiple values for argument '' @
                  [CHR 0x27] @ ''message'' @ [CHR 0x27])))"

definition on_consume_ready :: handler where
  "on_consume_ready args =
     arg_error ''on_consume_ready''
       (''got an unexpected keyword argument '' @ [CHR 0x27] @ ''message'' @ [CHR 0x27])"

definition on_consume_end :: handler where
  "on_consume_end args =
     arg_error ''on_consume_end''
       (''got an unexpected keyword argument '' @ [CHR 0x27] @ ''message'' @ [CHR 0x27])"

definition base_attributes :: "string \<Rightarrow> handler option" where
  "base_attributes n =
     (if n = ''on_message'' then Some on_message
      else if n = ''on_consume_ready'' then Some on_consume_ready
      else if n = ''on_consume_end'' then Some on_consume_end
      else None)"

definition getattr_service :: "service \<Rightarrow> string \<Rightarrow> handler option" where
  "getattr_service svc n =
     (case attributes svc n of
        Some h \<Rightarrow> Some h
      | None \<Rightarrow> (case base_attributes n of Some h \<Rightarrow> Some h | None \<Rightarrow> mixin svc n))"

text \<open>\<open>routing_key.rsplit('.', 1)[1]\<close>: the text after the last dot.\<close>

definition expected_method :: "string \<Rightarrow> exc + string" where
  "expected_method rk =
     (if CHR ''.'' \<in> set rk then Inr (rev (takeWhile (\<lambda>c. c \<noteq> CHR ''.'') (rev rk)))
      else Inl (raise IndexError ''list index out of range''))"

text \<open>
  Lines 213 to 216: a dict of parameters is passed by keyword next to \<open>message\<close>, so a
  key \<open>message\<close> is a \<open>TypeError\<close> at the call; anything else is unpacked into
  positional arguments. The events are the call and what the handler does.
\<close>

definition call_method :: "handler \<Rightarrow> string \<Rightarrow> json \<Rightarrow> event list \<times> (exc + json)" where
  "call_method method name params =
     (case params of
        JDict kvs \<Rightarrow>
          (if dict_has kvs ''message'' then
             ([], Inl (raise TypeError
                    (name @ ''() got multiple values for keyword argument '' @
                     [CHR 0x27] @ ''message'' @ [CHR 0x27])))
           else (case method (Keywords kvs) of
                   (hevs, r) \<Rightarrow> (Invoke name (Keywords kvs) # hevs, r)))
      | _ \<Rightarrow>
          (case py_iter params of
             Inl e \<Rightarrow>
               ([], Inl (raise TypeError
                      (name @ ''() argument after * must be an iterable, not '' @
                       type_name params)))
           | Inr xs \<Rightarrow>
               (case method (Positional xs) of
                  (hevs, r) \<Rightarrow> (Invoke name (Positional xs) # hevs, r))))"

text \<open>The error object built on lines 218 to 233.\<close>

definition error_result :: "json \<Rightarrow> exc \<Rightarrow> json" where
  "error_result ident error =
     JDict [(''jsonrpc'', JStr ''2.0''),
            (''id'', ident),
            (''error'',
             JDict [(''code'', JNum (if exc_class error = AttributeError then - 32601 else - 32600)),
                    (''message'', JStr (exc_text error)),
                    (''data'', JDict [(''exception'', JStr (str_type (exc_class error)))])])]"

text \<open>
  The \<open>try\<close> statement of lines 211 to 236 for a body whose \<open>method\<close> is \<open>m\<close>:
  the value of \<open>result\<close> after it, or the exception that leaves it (one that
  \<open>except Exception\<close> does not catch, or the \<open>KeyError\<close> of \<open>body['id']\<close> inside
  the \<open>except\<close> block).
\<close>

definition dispatch :: "service \<Rightarrow> (string \<times> json) list \<Rightarrow> string \<Rightarrow> event list \<times> (exc + json)" where
  "dispatch svc body m =
     (let name = ''on_'' @ m;
          attempt =
            (case getattr_service svc name of
               None \<Rightarrow>
                 ([], Inl (raise AttributeError
                        ([CHR 0x27] @ class_name svc @ [CHR 0x27] @
                         '' object has no attribute '' @ [CHR 0x27] @ name @ [CHR 0x27])))
             | Some method \<Rightarrow>
                 (case dict_get body ''params'' of
                    None \<Rightarrow> ([], Inl (key_error ''params''))
                  | Some params \<Rightarrow> call_method method name params))
      in case attempt of
           (evs, Inr result) \<Rightarrow> (evs, Inr result)
         | (evs, Inl error) \<Rightarrow>
             (if cls_is_Exception (exc_class error) then
                (case dict_get body ''id'' of
                   None \<Rightarrow> (evs, Inl (key_error ''id''))
                 | Some ident \<Rightarrow> (evs, Inr (error_result ident error)))
              else (evs, Inl error)))"

text \<open>
  \<open>self.on_message(body, message)\<close> on line 251: the service's \<open>on_message\<close>, which
  is that of \<open>CommissaireService\<close> unless the service's class has its own.
\<close>

definition call_on_message :: "service \<Rightarrow> json \<Rightarrow> event list \<times> exc option" where
  "call_on_message svc body =
     (case getattr_service svc ''on_message'' of
        None \<Rightarrow>
          ([], Some (raise AttributeError
                  ([CHR 0x27] @ class_name svc @ [CHR 0x27] @
                   '' object has no attribute '' @ [CHR 0x27] @ ''on_message'' @ [CHR 0x27])))
      | Some h \<Rightarrow>
          (case h (Positional [body]) of
             (hevs, Inl e) \<Rightarrow> (Invoke ''on_message'' (Positional [body]) # hevs, Some e)
           | (hevs, Inr v) \<Rightarrow> (Invoke ''on_message'' (Positional [body]) # hevs, None)))"

text \<open>
  \<open>_wrap_on_message\<close>: the events of the call and the exception that leaves it, if any.
\<close>

definition wrap_on_message :: "service \<Rightarrow> json \<Rightarrow> message \<Rightarrow> event list \<times> exc option" where
  "wrap_on_message svc body message =
     (case expected_method (routing_key message) of
        Inl e \<Rightarrow> ([], Some e)
      | Inr expected \<Rightarrow>
          (case body of
             JDict kvs \<Rightarrow>
               (if dict_has kvs ''method'' \<and> dict_get kvs ''method'' = Some (JStr expected) then
                  (case dispatch svc kvs expected of
                     (evs, Inl e) \<Rightarrow> (evs, Some e)
                   | (evs, Inr result) \<Rightarrow>
                       (case dict_get kvs ''id'' of
                          None \<Rightarrow> (evs, Some (key_error ''id''))
                        | Some ident \<Rightarrow>
                            (case ack evs of
                               (evs', Some e) \<Rightarrow> (evs', Some e)
                             | (evs', None) \<Rightarrow>
                                 (evs' @
                                  (case reply_to message of
                                     None \<Rightarrow> []
                                   | Some q \<Rightarrow>
                                       (if q \<noteq> [] then
                                          [SimpleQueue q [],
                                           Put q (JDict [(''result'', result)]),
                                           Close q]
                                        else [])),
                                  None))))
                else call_on_message svc body)
           | _ \<Rightarrow> call_on_message svc body))"

text \<open>\<open>respond\<close>: the envelope sent to a named queue.\<close>

definition respond :: "string \<Rightarrow> json \<Rightarrow> json \<Rightarrow> (string \<times> json) list \<Rightarrow> event list" where
  "respond queue_name ident payload kwargs =
     [SimpleQueue queue_name kwargs,
      Put queue_name (JDict [(''jsonrpc'', JStr ''2.0''), (''id'', ident), (''result'', payload)]),
      Close queue_name]"

text \<open>
  \<open>request\<close> (\<open>rkey\<close> is its \<open>routing_key\<close>). \<open>new_id\<close> is what \<open>create_id\<close>
  returns for this call and \<open>reply\<close> the payload of the message that \<open>get\<close> returns
  within its timeout, \<open>None\<close> when none arrives and \<open>get\<close> raises \<open>Empty\<close>. The
  keyword arguments are the optional \<open>queue_opts\<close> (a dict) and the others.
\<close>

definition Empty :: pyclass where
  "Empty = \<lparr>cls_module = ''queue'', cls_name = ''Empty'', cls_is_Exception = True\<rparr>"

definition dict_set :: "string \<Rightarrow> json \<Rightarrow> (string \<times> json) list \<Rightarrow> (string \<times> json) list" where
  "dict_set k v kvs =
     (if dict_has kvs k then map (\<lambda>kv. if fst kv = k then (k, v) else kv) kvs
      else kvs @ [(k, v)])"

definition dict_update :: "(string \<times> json) list \<Rightarrow> (string \<times> json) list \<Rightarrow> (string \<times> json) list" where
  "dict_update base d = fold (\<lambda>kv acc. dict_set (fst kv) (snd kv) acc) d base"

record request_kwargs =
  kw_queue_opts :: "(string \<times> json) list option"
  kw_others :: "(string \<times> json) list"

definition request ::
  "string \<Rightarrow> json option \<Rightarrow> string \<Rightarrow> string \<Rightarrow> json \<Rightarrow> request_kwargs \<Rightarrow>
   event list \<times> (exc + json)" where
  "request new_id reply rkey method params kwargs =
     (let response_queue_name = ''response-'' @ new_id;
          defaults = [(''auto_delete'', JBool True), (''durable'', JBool False)]
      in case kw_queue_opts kwargs of
           Some [] \<Rightarrow>
             ([], Inl (raise TypeError
                    (''SimpleQueue() got multiple values for keyword argument '' @
                     [CHR 0x27] @ ''queue_opts'' @ [CHR 0x27])))
         | opts \<Rightarrow>
             (let queue_opts = (case opts of None \<Rightarrow> defaults | Some d \<Rightarrow> dict_update defaults d);
                  jsonrpc_msg = JDict [(''jsonrpc'', JStr ''2.0''), (''id'', JStr new_id),
                                       (''method'', JStr method), (''params'', params)];
                  sent = [SimpleQueue response_queue_name
                            ((''queue_opts'', JDict queue_opts) # kw_others kwargs),
                          Publish jsonrpc_msg rkey response_queue_name,
                          Get response_queue_name True 3]
              in case reply of
                   None \<Rightarrow> (sent, Inl (raise Empty []))
                 | Some payload \<Rightarrow>
                     (case payload of
                        JDict kvs \<Rightarrow> (sent @ [AckReply, Close response_queue_name], Inr payload)
                      | _ \<Rightarrow>
                          (sent @ [AckReply],
                           Inl (raise AttributeError
                                  ([CHR 0x27] @ type_name payload @ [CHR 0x27] @
                                   '' object has no attribute '' @
                                   [CHR 0x27] @ ''keys'' @ [CHR 0x27]))))))"

text \<open>
  The queues a sequence of bus calls leaves open: opened by \<open>SimpleQueue\<close> and not
  closed since. A reply queue is auto-deleting: it goes when \<open>close\<close> cancels its
  consumer, and stays on the broker until then.
\<close>

fun open_queues :: "event list \<Rightarrow> string list \<Rightarrow> string list" where
  "open_queues [] qs = qs"
| "open_queues (SimpleQueue q kw # evs) qs = open_queues evs (qs @ [q])"
| "open_queues (Close q # evs) qs = open_queues evs (removeAll q qs)"
| "open_queues (ev # evs) qs = open_queues evs qs"

text \<open>
  A service to evaluate on. Its class defines \<open>on_ping\<close>, which returns, \<open>on_fail\<close>,
  which raises \<open>ValueError\<close>, and \<open>on_attr\<close>, which raises \<open>AttributeError\<close>; none
  of them touches the message. The mixin is taken to add no method.
\<close>

definition ValueError :: pyclass where "ValueError = builtin_exc ''ValueError''"

definition on_ping :: handler where "on_ping args = ([], Inr (JStr ''pong''))"

definition on_fail :: handler where "on_fail args = ([], Inl (raise ValueError ''boom''))"

definition on_attr :: handler where "on_attr args = ([], Inl (raise AttributeError ''boom''))"

definition example_rpc_service :: service where
  "example_rpc_service =
     \<lparr>class_name = ''ExampleService'',
      attributes = (\<lambda>n.
         if n = ''on_ping'' then Some on_ping
         else if n = ''on_fail'' then Some on_fail
         else if n = ''on_attr'' then Some on_attr
         else None),
      mixin = (\<lambda>n. None)\<rparr>"

section \<open>Properties of the storage service\<close>

subsection \<open>Dictionaries, sets and pattern matching\<close>

lemma dict_get_del: "dict_get (dict_del k kvs) k' = (if k' = k then None else dict_get kvs k')"
  by (induction kvs) (auto simp: dict_get_def dict_del_def)

lemma dict_del_twice:
  "dict_del a (dict_del b kvs) = filter (\<lambda>kv. fst kv \<noteq> a \<and> fst kv \<noteq> b) kvs"
  by (simp add: dict_del_def conj_commute)

lemma set_update_set: "set (set_update acc xs) = set acc \<union> set xs"
  unfolding set_update_def by (induction xs arbitrary: acc) auto

lemma set_update_distinct: "distinct acc \<Longrightarrow> distinct (set_update acc xs)"
  unfolding set_update_def by (induction xs arbitrary: acc) auto

lemma lookup_types_keys:
  "set ns \<subseteq> fst ` set catalog \<Longrightarrow>
   \<exists>ts. lookup_types catalog ns = Inr ts \<and>
        set ts = {t. \<exists>n \<in> set ns. map_of catalog n = Some t}"
proof (induction ns)
  case Nil
  then show ?case by simp
next
  case (Cons n ns)
  then obtain ts where ts: "lookup_types catalog ns = Inr ts"
      "set ts = {t. \<exists>n \<in> set ns. map_of catalog n = Some t}" by auto
  from Cons.prems have "n \<in> fst ` set catalog" by simp
  then obtain t where t: "map_of catalog n = Some t"
    by (metis map_of_eq_None_iff not_Some_eq)
  show ?case using ts t by auto
qed

lemma filter_keys: "set (fnmatch_filter (map fst catalog) p) \<subseteq> fst ` set catalog"
  by (auto simp: fnmatch_filter_def)

lemma matched_set:
  "{t. \<exists>n \<in> set (fnmatch_filter (map fst catalog) p). map_of catalog n = Some t} =
   {t. \<exists>n. fnmatchcase n p \<and> map_of catalog n = Some t}"
proof -
  have "\<And>n t. map_of catalog n = Some t \<Longrightarrow> n \<in> fst ` set catalog"
    by (metis map_of_eq_None_iff option.distinct(1))
  then show ?thesis by (auto simp: fnmatch_filter_def)
qed

lemma match_patterns_strings:
  "distinct acc \<Longrightarrow>
   (case find (\<lambda>p. fnmatch_filter (map fst catalog) p = []) pats of
      Some p \<Rightarrow> match_patterns catalog (map JStr pats) acc =
                 Inl (raise ConfigurationError (''No match for model: '' @ p))
    | None \<Rightarrow> (\<exists>ts. match_patterns catalog (map JStr pats) acc = Inr ts \<and> distinct ts \<and>
                 set ts = set acc \<union>
                   (\<Union>p \<in> set pats. {t. \<exists>n. fnmatchcase n p \<and> map_of catalog n = Some t})))"
proof (induction pats arbitrary: acc)
  case Nil
  then show ?case by simp
next
  case (Cons p pats)
  show ?case
  proof (cases "fnmatch_filter (map fst catalog) p = []")
    case True
    then show ?thesis by simp
  next
    case False
    obtain ts where ts: "lookup_types catalog (fnmatch_filter (map fst catalog) p) = Inr ts"
      "set ts = {t. \<exists>n. fnmatchcase n p \<and> map_of catalog n = Some t}"
      using lookup_types_keys[OF filter_keys, of catalog p] matched_set[of catalog p] by auto
    have d: "distinct (set_update acc ts)" using Cons.prems by (rule set_update_distinct)
    show ?thesis
      using Cons.IH[OF d] False ts
      by (auto simp: set_update_set split: option.splits)
  qed
qed


lemma register_success_shape:
  assumes "fst (register_store_handler svc (JDict kvs)) = Inr ()"
  shows "\<exists>ht types. register_store_handler svc (JDict kvs) =
           (Inr (), JDict (dict_del ''models'' (dict_del ''name'' kvs)),
            svc\<lparr>manager := manager svc @
               [(ht, JDict (dict_del ''models'' (dict_del ''name'' kvs)), types)]\<rparr>)"
  using assms
  by (auto simp: register_store_handler_def Let_def manager_register_def
           split: option.splits sum.splits)

subsection \<open>The configuration argument after registration\<close>

text \<open>
  Claim C10. \<open>register_store_handler\<close> mutates the configuration mapping passed to it:
  when the registration succeeds, the argument is left as the input mapping without the
  keys \<open>name\<close> and \<open>models\<close>, that same mapping is the config stored with the new
  registration (appended to the manager's registrations), and every other key keeps its
  value.
\<close>

theorem register_store_handler_consumes_keys:
  assumes "register_store_handler svc (JDict kvs) = (Inr (), config', svc')"
  shows "config' = JDict (filter (\<lambda>kv. fst kv \<noteq> ''models'' \<and> fst kv \<noteq> ''name'') kvs) \<and>
         (\<exists>ht types. manager svc' = manager svc @ [(ht, config', types)]) \<and>
         (\<exists>rest. config' = JDict rest \<and>
            dict_get rest ''name'' = None \<and> dict_get rest ''models'' = None \<and>
            (\<forall>k. k \<noteq> ''name'' \<and> k \<noteq> ''models'' \<longrightarrow> dict_get rest k = dict_get kvs k))"
proof -
  from assms have "fst (register_store_handler svc (JDict kvs)) = Inr ()" by simp
  from register_success_shape[OF this] assms
  obtain ht types where
    c: "config' = JDict (dict_del ''models'' (dict_del ''name'' kvs))" and
    m: "svc' = svc\<lparr>manager := manager svc @ [(ht, config', types)]\<rparr>"
    by auto
  have 1: "config' = JDict (filter (\<lambda>kv. fst kv \<noteq> ''models'' \<and> fst kv \<noteq> ''name'') kvs)"
    using c by (simp add: dict_del_twice)
  have 2: "\<exists>ht types. manager svc' = manager svc @ [(ht, config', types)]"
    using m by auto
  have 3: "dict_get (dict_del ''models'' (dict_del ''name'' kvs)) ''name'' = None"
          "dict_get (dict_del ''models'' (dict_del ''name'' kvs)) ''models'' = None"
          "\<forall>k. k \<noteq> ''name'' \<and> k \<noteq> ''models'' \<longrightarrow>
             dict_get (dict_del ''models'' (dict_del ''name'' kvs)) k = dict_get kvs k"
    by (simp_all add: dict_get_del)
  show ?thesis using 1 2 3 c by blast
qed

theorem register_store_handler_consumes_keys_witness:
  "register_store_handler example_service
     (JDict [(''name'', JStr ''etcd''), (''server_url'', JStr ''http://127.0.0.1:2379''),
             (''models'', JList [JStr ''Node*''])]) =
     (Inr (), JDict [(''server_url'', JStr ''http://127.0.0.1:2379'')],
      example_service\<lparr>manager :=
        [(HandlerType ''etcd'', JDict [(''server_url'', JStr ''http://127.0.0.1:2379'')],
          [ModelType ''NodeModel''])]\<rparr>) \<and>
   JDict [(''server_url'', JStr ''http://127.0.0.1:2379'')] =
     JDict (filter (\<lambda>kv. fst kv \<noteq> ''models'' \<and> fst kv \<noteq> ''name'')
        [(''name'', JStr ''etcd''), (''server_url'', JStr ''http://127.0.0.1:2379''),
         (''models'', JList [JStr ''Node*''])])"
proof -
  have e: "register_store_handler example_service
     (JDict [(''name'', JStr ''etcd''), (''server_url'', JStr ''http://127.0.0.1:2379''),
             (''models'', JList [JStr ''Node*''])]) =
     (Inr (), JDict [(''server_url'', JStr ''http://127.0.0.1:2379'')],
      example_service\<lparr>manager :=
        [(HandlerType ''etcd'', JDict [(''server_url'', JStr ''http://127.0.0.1:2379'')],
          [ModelType ''NodeModel''])]\<rparr>)"
    by (simp add: register_store_handler_def example_service_def example_catalog_def
          dict_get_def dict_del_def py_iter_def fnmatch_filter_def fnmatchcase_def
          set_update_def manager_register_def Let_def)
  from register_store_handler_consumes_keys[OF e] e show ?thesis by simp
qed

subsection \<open>Resolving the model patterns of an entry\<close>

text \<open>
  Claim C7. For a registration entry whose \<open>name\<close> resolves, the optional \<open>models\<close>
  key (\<open>["*"]\<close> when absent) is processed pattern by pattern against the names of the
  whole catalog: the first pattern without a match raises \<open>ConfigurationError\<close> with
  the text \<open>No match for model: <pattern>\<close> and registers nothing; otherwise the entry
  is registered with a duplicate-free collection of types that is the union of the
  matches of all patterns. Registering \<open>{"name": "X", "models": ["Node*"]}\<close> against
  the catalog NodeModel, NetworkModel, ClusterModel registers exactly NodeModel, and
  \<open>"models": ["NoSuchPrefix*"]\<close> fails with a configuration error.
\<close>

theorem register_store_handler_models:
  assumes name: "dict_get kvs ''name'' = Some n"
    and plugin: "import_plugin svc n = Inr ht"
    and models: "dict_get kvs ''models'' = Some (JList (map JStr pats)) \<or>
                 dict_get kvs ''models'' = None \<and> pats = [''*'']"
  shows "(case find (\<lambda>p. fnmatch_filter (map fst (model_types svc)) p = []) pats of
            Some p \<Rightarrow>
              fst (register_store_handler svc (JDict kvs)) =
                Inl (raise ConfigurationError (''No match for model: '' @ p)) \<and>
              snd (snd (register_store_handler svc (JDict kvs))) = svc
          | None \<Rightarrow>
              (\<exists>types rest.
                 register_store_handler svc (JDict kvs) =
                   (Inr (), JDict rest, svc\<lparr>manager := manager svc @ [(ht, JDict rest, types)]\<rparr>) \<and>
                 distinct types \<and>
                 set types =
                   (\<Union>p \<in> set pats.
                      {t. \<exists>nm. fnmatchcase nm p \<and> map_of (model_types svc) nm = Some t}))) \<and>
         (\<exists>rest.
            register_store_handler example_service
              (JDict [(''name'', JStr ''X''), (''models'', JList [JStr ''Node*''])]) =
            (Inr (), JDict rest,
             example_service\<lparr>manager := [(HandlerType ''X'', JDict rest, [ModelType ''NodeModel''])]\<rparr>)) \<and>
         (\<exists>e. fst (register_store_handler example_service
              (JDict [(''name'', JStr ''X''), (''models'', JList [JStr ''NoSuchPrefix*''])])) = Inl e \<and>
              exc_class e = ConfigurationError \<and>
              exc_text e = ''No match for model: NoSuchPrefix*'')"
proof -
  let ?cat = "model_types svc"
  have it: "py_iter (case dict_get (dict_del ''name'' kvs) ''models'' of
                       None \<Rightarrow> JList [JStr ''*''] | Some m \<Rightarrow> m) = Inr (map JStr pats)"
    using models by (auto simp: dict_get_del py_iter_def)
  have reg: "register_store_handler svc (JDict kvs) =
      (case match_patterns ?cat (map JStr pats) [] of
         Inl e \<Rightarrow> (Inl e, JDict (dict_del ''models'' (dict_del ''name'' kvs)), svc)
       | Inr ts \<Rightarrow> (Inr (), JDict (dict_del ''models'' (dict_del ''name'' kvs)),
            svc\<lparr>manager := manager svc @
               [(ht, JDict (dict_del ''models'' (dict_del ''name'' kvs)), ts)]\<rparr>))"
    using name plugin it
    by (simp add: register_store_handler_def Let_def manager_register_def split: sum.splits)
  have mp: "(case find (\<lambda>p. fnmatch_filter (map fst ?cat) p = []) pats of
      Some p \<Rightarrow> match_patterns ?cat (map JStr pats) [] =
                 Inl (raise ConfigurationError (''No match for model: '' @ p))
    | None \<Rightarrow> (\<exists>ts. match_patterns ?cat (map JStr pats) [] = Inr ts \<and> distinct ts \<and>
                 set ts = set [] \<union>
                   (\<Union>p \<in> set pats. {t. \<exists>n. fnmatchcase n p \<and> map_of ?cat n = Some t})))"
    by (rule match_patterns_strings) simp
  have general: "(case find (\<lambda>p. fnmatch_filter (map fst (model_types svc)) p = []) pats of
            Some p \<Rightarrow>
              fst (register_store_handler svc (JDict kvs)) =
                Inl (raise ConfigurationError (''No match for model: '' @ p)) \<and>
              snd (snd (register_store_handler svc (JDict kvs))) = svc
          | None \<Rightarrow>
              (\<exists>types rest.
                 register_store_handler svc (JDict kvs) =
                   (Inr (), JDict rest, svc\<lparr>manager := manager svc @ [(ht, JDict rest, types)]\<rparr>) \<and>
                 distinct types \<and>
                 set types =
                   (\<Union>p \<in> set pats.
                      {t. \<exists>nm. fnmatchcase nm p \<and> map_of (model_types svc) nm = Some t})))"
  proof (cases "find (\<lambda>p. fnmatch_filter (map fst ?cat) p = []) pats")
    case None
    with mp obtain ts where "match_patterns ?cat (map JStr pats) [] = Inr ts" "distinct ts"
      "set ts = (\<Union>p \<in> set pats. {t. \<exists>n. fnmatchcase n p \<and> map_of ?cat n = Some t})"
      by auto
    then show ?thesis using None reg by auto
  next
    case (Some p)
    with mp have "match_patterns ?cat (map JStr pats) [] =
                 Inl (raise ConfigurationError (''No match for model: '' @ p))" by simp
    then show ?thesis using Some reg by simp
  qed
  have ex1: "register_store_handler example_service
              (JDict [(''name'', JStr ''X''), (''models'', JList [JStr ''Node*''])]) =
            (Inr (), JDict [],
             example_service\<lparr>manager := [(HandlerType ''X'', JDict [], [ModelType ''NodeModel''])]\<rparr>)"
    by (simp add: register_store_handler_def example_service_def example_catalog_def
          dict_get_def dict_del_def py_iter_def fnmatch_filter_def fnmatchcase_def
          set_update_def manager_register_def Let_def)
  have ex2: "fst (register_store_handler example_service
              (JDict [(''name'', JStr ''X''), (''models'', JList [JStr ''NoSuchPrefix*''])])) =
             Inl (raise ConfigurationError ''No match for model: NoSuchPrefix*'')"
    by (simp add: register_store_handler_def example_service_def example_catalog_def
          dict_get_def dict_del_def py_iter_def fnmatch_filter_def fnmatchcase_def
          set_update_def manager_register_def Let_def)
  have ex2': "\<exists>e. fst (register_store_handler example_service
              (JDict [(''name'', JStr ''X''), (''models'', JList [JStr ''NoSuchPrefix*''])])) = Inl e \<and>
              exc_class e = ConfigurationError \<and>
              exc_text e = ''No match for model: NoSuchPrefix*''"
    unfolding ex2 by (simp add: raise_def)
  from general ex1 ex2' show ?thesis by blast
qed


theorem register_store_handler_models_witness:
  "dict_get [(''name'', JStr ''X''), (''models'', JList [JStr ''Node*'', JStr ''*Model''])] ''name'' =
     Some (JStr ''X'') \<and>
   import_plugin example_service (JStr ''X'') = Inr (HandlerType ''X'') \<and>
   dict_get [(''name'', JStr ''X''), (''models'', JList [JStr ''Node*'', JStr ''*Model''])] ''models'' =
     Some (JList (map JStr [''Node*'', ''*Model''])) \<and>
   (\<exists>types rest.
      register_store_handler example_service
        (JDict [(''name'', JStr ''X''), (''models'', JList [JStr ''Node*'', JStr ''*Model''])]) =
      (Inr (), JDict rest,
       example_service\<lparr>manager := manager example_service @ [(HandlerType ''X'', JDict rest, types)]\<rparr>) \<and>
      distinct types \<and>
      set types =
        (\<Union>p \<in> set [''Node*'', ''*Model''].
           {t. \<exists>nm. fnmatchcase nm p \<and> map_of (model_types example_service) nm = Some t})) \<and>
   dict_get [(''name'', JStr ''X'')] ''models'' = None \<and>
   (\<exists>types rest.
      register_store_handler example_service (JDict [(''name'', JStr ''X'')]) =
      (Inr (), JDict rest,
       example_service\<lparr>manager := manager example_service @ [(HandlerType ''X'', JDict rest, types)]\<rparr>) \<and>
      distinct types \<and>
      set types =
        (\<Union>p \<in> set [''*''].
           {t. \<exists>nm. fnmatchcase nm p \<and> map_of (model_types example_service) nm = Some t}))"
proof -
  have n1: "dict_get [(''name'', JStr ''X''), (''models'', JList [JStr ''Node*'', JStr ''*Model''])]
              ''name'' = Some (JStr ''X'')"
    by (simp add: dict_get_def)
  have p: "import_plugin example_service (JStr ''X'') = Inr (HandlerType ''X'')"
    by (simp add: example_service_def)
  have m1: "dict_get [(''name'', JStr ''X''), (''models'', JList [JStr ''Node*'', JStr ''*Model''])]
              ''models'' = Some (JList (map JStr [''Node*'', ''*Model'']))"
    by (simp add: dict_get_def)
  have f1: "find (\<lambda>p. fnmatch_filter (map fst (model_types example_service)) p = [])
              [''Node*'', ''*Model''] = None"
    by (simp add: example_service_def example_catalog_def fnmatch_filter_def fnmatchcase_def)
  have n2: "dict_get [(''name'', JStr ''X'')] ''name'' = Some (JStr ''X'')"
    by (simp add: dict_get_def)
  have m2: "dict_get [(''name'', JStr ''X'')] ''models'' = None"
    by (simp add: dict_get_def)
  have f2: "find (\<lambda>p. fnmatch_filter (map fst (model_types example_service)) p = [])
              [''*''] = None"
    by (simp add: example_service_def example_catalog_def fnmatch_filter_def fnmatchcase_def)
  note a = register_store_handler_models[OF n1 p disjI1, OF m1, THEN conjunct1, unfolded f1, simplified]
  note b = register_store_handler_models[OF n2 p disjI2, of "[''*'']", OF conjI, OF m2 refl,
             THEN conjunct1, unfolded f2, simplified]
  show ?thesis using n1 p m1 m2 a b by simp
qed

subsection \<open>The view of the routing table\<close>

lemma register_cases:
  "register_store_handler svc c = (r, c', svc') \<Longrightarrow>
   (r \<noteq> Inr () \<and> svc' = svc) \<or>
   (\<exists>kvs n ht mts. c = JDict kvs \<and> dict_get kvs ''name'' = Some n \<and>
      import_plugin svc n = Inr ht \<and> r = Inr () \<and>
      c' = JDict (dict_del ''models'' (dict_del ''name'' kvs)) \<and>
      svc' = svc\<lparr>manager := manager svc @ [(ht, c', mts)]\<rparr>)"
  unfolding register_store_handler_def Let_def manager_register_def
  by (cases c) (auto split: option.splits sum.splits)

lemma register_keeps_fields:
  "register_store_handler svc c = (r, c', svc') \<Longrightarrow>
   import_plugin svc' = import_plugin svc \<and> model_types svc' = model_types svc"
  by (drule register_cases) auto

lemma register_success_entry:
  assumes "register_store_handler svc c = (Inr (), c', svc')"
  shows "\<exists>kvs n ht mts. c = JDict kvs \<and> dict_get kvs ''name'' = Some n \<and>
           import_plugin svc n = Inr ht \<and>
           c' = JDict (filter (\<lambda>kv. fst kv \<noteq> ''models'' \<and> fst kv \<noteq> ''name'') kvs) \<and>
           manager svc' = manager svc @ [(ht, c', mts)]"
proof -
  from register_cases[OF assms] obtain kvs n ht mts where
    "c = JDict kvs" "dict_get kvs ''name'' = Some n" "import_plugin svc n = Inr ht"
    "c' = JDict (dict_del ''models'' (dict_del ''name'' kvs))"
    "svc' = svc\<lparr>manager := manager svc @ [(ht, c', mts)]\<rparr>" by auto
  then show ?thesis by (auto simp: dict_del_twice)
qed

lemma register_all_regs:
  "register_all svc configs = (Inr (), configs', svc') \<Longrightarrow>
   \<exists>regs. manager svc' = manager svc @ regs \<and> length regs = length configs \<and>
     length configs' = length configs \<and>
     (\<forall>i < length configs. \<exists>kvs n ht mts.
        configs ! i = JDict kvs \<and> dict_get kvs ''name'' = Some n \<and>
        import_plugin svc n = Inr ht \<and>
        configs' ! i = JDict (filter (\<lambda>kv. fst kv \<noteq> ''models'' \<and> fst kv \<noteq> ''name'') kvs) \<and>
        regs ! i = (ht, configs' ! i, mts))"
proof (induction configs arbitrary: svc configs' svc')
  case Nil
  then show ?case by simp
next
  case (Cons c cs)
  obtain r c1 svc1 where s1: "register_store_handler svc c = (r, c1, svc1)"
    by (metis prod_cases3)
  obtain r2 cs2 svc2 where s2: "register_all svc1 cs = (r2, cs2, svc2)"
    by (metis prod_cases3)
  from Cons.prems s1 s2 have r: "r = Inr ()" and r2: "r2 = Inr ()"
    and eq: "configs' = c1 # cs2" "svc' = svc2"
    by (auto split: sum.splits)
  from register_success_entry[OF s1[unfolded r]]
  obtain kvs n ht mts where e: "c = JDict kvs" "dict_get kvs ''name'' = Some n"
     "import_plugin svc n = Inr ht"
     "c1 = JDict (filter (\<lambda>kv. fst kv \<noteq> ''models'' \<and> fst kv \<noteq> ''name'') kvs)"
     "manager svc1 = manager svc @ [(ht, c1, mts)]" by blast
  from Cons.IH[OF s2[unfolded r2]] obtain regs where
    ih: "manager svc2 = manager svc1 @ regs" "length regs = length cs" "length cs2 = length cs"
     "\<forall>i < length cs. \<exists>kvs n ht mts.
        cs ! i = JDict kvs \<and> dict_get kvs ''name'' = Some n \<and>
        import_plugin svc1 n = Inr ht \<and>
        cs2 ! i = JDict (filter (\<lambda>kv. fst kv \<noteq> ''models'' \<and> fst kv \<noteq> ''name'') kvs) \<and>
        regs ! i = (ht, cs2 ! i, mts)" by blast
  have ip: "import_plugin svc1 = import_plugin svc" using register_keeps_fields[OF s1] by simp
  let ?regs = "(ht, c1, mts) # regs"
  have a: "manager svc' = manager svc @ ?regs" using ih(1) e(5) eq by simp
  have b: "length ?regs = length (c # cs)" "length configs' = length (c # cs)"
    using ih eq by simp_all
  have c: "\<exists>kvs n ht mts.
        (c # cs) ! i = JDict kvs \<and> dict_get kvs ''name'' = Some n \<and>
        import_plugin svc n = Inr ht \<and>
        configs' ! i = JDict (filter (\<lambda>kv. fst kv \<noteq> ''models'' \<and> fst kv \<noteq> ''name'') kvs) \<and>
        ?regs ! i = (ht, configs' ! i, mts)" if "i < length (c # cs)" for i
  proof (cases i)
    case 0
    then show ?thesis using e eq by simp
  next
    case (Suc j)
    with that have "j < length cs" by simp
    with ih(4) ip show ?thesis using Suc eq by simp
  qed
  from a b c show ?case by blast
qed

text \<open>
  Claim C8. After a sequence of registrations that all succeed on a service that starts
  without registrations, \<open>on_list_store_handlers\<close> returns one entry per registration,
  in registration order. Entry \<open>i\<close> holds the \<open>__name__\<close> of the handler class resolved
  from the \<open>name\<close> of the \<open>i\<close>-th configuration, the rest of that configuration, and
  the names of the model types stored with the registration in lexicographic order: the
  same list whatever the order in which those types were handed to the manager.
\<close>

theorem on_list_store_handlers_view:
  assumes "register_all svc configs = (Inr (), configs', svc')" and "manager svc = []"
  shows "\<exists>es. on_list_store_handlers svc' = JList es \<and> length es = length configs \<and>
           (\<forall>i < length configs. \<exists>kvs n ht mts names.
              configs ! i = JDict kvs \<and> dict_get kvs ''name'' = Some n \<and>
              import_plugin svc n = Inr ht \<and>
              manager svc' ! i =
                (ht, JDict (filter (\<lambda>kv. fst kv \<noteq> ''models'' \<and> fst kv \<noteq> ''name'') kvs), mts) \<and>
              es ! i =
                JDict [(''handler_type'', JStr (ht_name ht)),
                       (''config'', JDict (filter (\<lambda>kv. fst kv \<noteq> ''models'' \<and> fst kv \<noteq> ''name'') kvs)),
                       (''model_types'', JList (map JStr names))] \<and>
              sorted names \<and> mset names = mset (map mt_name mts) \<and>
              (\<forall>mts'. mset mts' = mset mts \<longrightarrow> sort (map mt_name mts') = names))"
proof -
  from register_all_regs[OF assms(1)] assms(2) obtain regs where
    r: "manager svc' = regs" "length regs = length configs"
     "\<forall>i < length configs. \<exists>kvs n ht mts.
        configs ! i = JDict kvs \<and> dict_get kvs ''name'' = Some n \<and>
        import_plugin svc n = Inr ht \<and>
        configs' ! i = JDict (filter (\<lambda>kv. fst kv \<noteq> ''models'' \<and> fst kv \<noteq> ''name'') kvs) \<and>
        regs ! i = (ht, configs' ! i, mts)" by auto
  let ?f = "\<lambda>(handler_type, config, mts).
                   JDict [(''handler_type'', JStr (ht_name handler_type)),
                          (''config'', config),
                          (''model_types'', JList (map JStr (sort (map mt_name mts))))]"
  let ?es = "map ?f regs"
  have 1: "on_list_store_handlers svc' = JList ?es"
    by (simp add: on_list_store_handlers_def list_store_handlers_def r(1))
  have 2: "length ?es = length configs" using r(2) by simp
  have 3: "\<exists>kvs n ht mts names.
              configs ! i = JDict kvs \<and> dict_get kvs ''name'' = Some n \<and>
              import_plugin svc n = Inr ht \<and>
              manager svc' ! i =
                (ht, JDict (filter (\<lambda>kv. fst kv \<noteq> ''models'' \<and> fst kv \<noteq> ''name'') kvs), mts) \<and>
              ?es ! i =
                JDict [(''handler_type'', JStr (ht_name ht)),
                       (''config'', JDict (filter (\<lambda>kv. fst kv \<noteq> ''models'' \<and> fst kv \<noteq> ''name'') kvs)),
                       (''model_types'', JList (map JStr names))] \<and>
              sorted names \<and> mset names = mset (map mt_name mts) \<and>
              (\<forall>mts'. mset mts' = mset mts \<longrightarrow> sort (map mt_name mts') = names)"
    if i: "i < length configs" for i
  proof -
    from r(3) i obtain kvs n ht mts where
      e0: "configs ! i = JDict kvs" "dict_get kvs ''name'' = Some n"
        "import_plugin svc n = Inr ht"
        "configs' ! i = JDict (filter (\<lambda>kv. fst kv \<noteq> ''models'' \<and> fst kv \<noteq> ''name'') kvs)"
        "regs ! i = (ht, configs' ! i, mts)"
      by blast
    have e: "configs ! i = JDict kvs" "dict_get kvs ''name'' = Some n"
        "import_plugin svc n = Inr ht"
        "regs ! i = (ht, JDict (filter (\<lambda>kv. fst kv \<noteq> ''models'' \<and> fst kv \<noteq> ''name'') kvs), mts)"
      using e0 by simp_all
    have p: "sort (map mt_name mts') = sort (map mt_name mts)" if "mset mts' = mset mts" for mts'
    proof (rule properties_for_sort)
      show "mset (sort (map mt_name mts)) = mset (map mt_name mts')"
        using that by (metis mset_map mset_sort)
      show "sorted (sort (map mt_name mts))" by simp
    qed
    have n: "?es ! i = ?f (regs ! i)" using i r(2) by simp
    have m: "manager svc' ! i =
        (ht, JDict (filter (\<lambda>kv. fst kv \<noteq> ''models'' \<and> fst kv \<noteq> ''name'') kvs), mts)"
      using e(4) r(1) by simp
    have v: "?es ! i =
                JDict [(''handler_type'', JStr (ht_name ht)),
                       (''config'', JDict (filter (\<lambda>kv. fst kv \<noteq> ''models'' \<and> fst kv \<noteq> ''name'') kvs)),
                       (''model_types'', JList (map JStr (sort (map mt_name mts))))]"
      using n e(4) by simp
    have s: "sorted (sort (map mt_name mts))" "mset (sort (map mt_name mts)) = mset (map mt_name mts)"
      by simp_all
    from e(1,2,3) m v s p show ?thesis by blast
  qed
  from 1 2 3 show ?thesis by blast
qed

theorem on_list_store_handlers_view_witness:
  "register_all example_service
     [JDict [(''name'', JStr ''etcd''), (''models'', JList [JStr ''N*''])],
      JDict [(''name'', JStr ''X''), (''k'', JNum 3)]] =
     (Inr (), [JDict [], JDict [(''k'', JNum 3)]],
      example_service\<lparr>manager :=
        [(HandlerType ''etcd'', JDict [], [ModelType ''NodeModel'', ModelType ''NetworkModel'']),
         (HandlerType ''X'', JDict [(''k'', JNum 3)],
          [ModelType ''NodeModel'', ModelType ''NetworkModel'', ModelType ''ClusterModel''])]\<rparr>) \<and>
   manager example_service = [] \<and>
   on_list_store_handlers (example_service\<lparr>manager :=
        [(HandlerType ''etcd'', JDict [], [ModelType ''NodeModel'', ModelType ''NetworkModel'']),
         (HandlerType ''X'', JDict [(''k'', JNum 3)],
          [ModelType ''NodeModel'', ModelType ''NetworkModel'', ModelType ''ClusterModel''])]\<rparr>) =
     JList
       [JDict [(''handler_type'', JStr ''etcd''), (''config'', JDict []),
               (''model_types'', JList [JStr ''NetworkModel'', JStr ''NodeModel''])],
        JDict [(''handler_type'', JStr ''X''), (''config'', JDict [(''k'', JNum 3)]),
               (''model_types'',
                JList [JStr ''ClusterModel'', JStr ''NetworkModel'', JStr ''NodeModel''])]] \<and>
   (\<exists>es. on_list_store_handlers (example_service\<lparr>manager :=
        [(HandlerType ''etcd'', JDict [], [ModelType ''NodeModel'', ModelType ''NetworkModel'']),
         (HandlerType ''X'', JDict [(''k'', JNum 3)],
          [ModelType ''NodeModel'', ModelType ''NetworkModel'', ModelType ''ClusterModel''])]\<rparr>) =
       JList es \<and> length es = 2)"
proof -
  let ?cfgs = "[JDict [(''name'', JStr ''etcd''), (''models'', JList [JStr ''N*''])],
      JDict [(''name'', JStr ''X''), (''k'', JNum 3)]]"
  let ?svc1 = "example_service\<lparr>manager :=
        [(HandlerType ''etcd'', JDict [], [ModelType ''NodeModel'', ModelType ''NetworkModel'']),
         (HandlerType ''X'', JDict [(''k'', JNum 3)],
          [ModelType ''NodeModel'', ModelType ''NetworkModel'', ModelType ''ClusterModel''])]\<rparr>"
  have e: "register_all example_service ?cfgs = (Inr (), [JDict [], JDict [(''k'', JNum 3)]], ?svc1)"
    by (simp add: register_store_handler_def example_service_def example_catalog_def
          dict_get_def dict_del_def py_iter_def fnmatch_filter_def fnmatchcase_def
          set_update_def manager_register_def Let_def)
  have m: "manager example_service = []" by (simp add: example_service_def)
  have v: "on_list_store_handlers ?svc1 =
     JList
       [JDict [(''handler_type'', JStr ''etcd''), (''config'', JDict []),
               (''model_types'', JList [JStr ''NetworkModel'', JStr ''NodeModel''])],
        JDict [(''handler_type'', JStr ''X''), (''config'', JDict [(''k'', JNum 3)]),
               (''model_types'',
                JList [JStr ''ClusterModel'', JStr ''NetworkModel'', JStr ''NodeModel''])]]"
    by (simp add: on_list_store_handlers_def list_store_handlers_def)
  from on_list_store_handlers_view[OF e m] obtain es where
    "on_list_store_handlers ?svc1 = JList es" "length es = length ?cfgs" by blast
  then have "\<exists>es. on_list_store_handlers ?svc1 = JList es \<and> length es = 2" by simp
  with e m v show ?thesis by blast
qed

subsection \<open>Building a model from a payload\<close>

text \<open>
  A string payload goes through the JSON parser, whose failure is the parser's
  \<open>JSONDecodeError\<close>; a parsed value that is not a dict ends in \<open>TypeError\<close>; an
  unknown type name of an object payload raises \<open>KeyError\<close>.
\<close>

lemma build_model_parse_failure:
  "json_loads svc s = Inl msg \<Longrightarrow>
   build_model svc model_type_name (JStr s) = Inl (raise JSONDecodeError msg)"
  by (simp add: build_model_def)

lemma build_model_non_object:
  "json_loads svc s = Inr v \<Longrightarrow> \<forall>kvs. v \<noteq> JDict kvs \<Longrightarrow>
   \<exists>e. build_model svc model_type_name (JStr s) = Inl e \<and> exc_class e = TypeError"
  by (cases v) (auto simp: build_model_def raise_def)

lemma build_model_unknown_type:
  "json_loads svc s = Inr (JDict kvs) \<Longrightarrow> map_of (model_types svc) model_type_name = None \<Longrightarrow>
   build_model svc model_type_name (JStr s) = Inl (key_error model_type_name) \<and>
   build_model svc model_type_name (JDict kvs) = Inl (key_error model_type_name)"
  by (simp add: build_model_def)

text \<open>
  Claim C9. The claim asks for a data-format error when a string payload parses to a value
  that is not an object. On the payload \<open>[1, 2]\<close> the code raises \<open>TypeError\<close>: line 124
  builds \<open>JSONDecodeError\<close> from the message alone, and the constructor, which takes
  \<open>(msg, doc, pos)\<close>, fails before anything is raised.
\<close>

theorem build_model_list_payload:
  "json_loads example_service ''[1, 2]'' = Inr (JList [JNum 1, JNum 2]) \<and>
   build_model example_service ''NodeModel'' (JStr ''[1, 2]'') =
     Inl (raise TypeError
            (''__init__() missing 2 required positional arguments: '' @
             [CHR 0x27] @ ''doc'' @ [CHR 0x27] @ '' and '' @ [CHR 0x27] @ ''pos'' @ [CHR 0x27])) \<and>
   TypeError \<noteq> JSONDecodeError"
  by (simp add: build_model_def example_service_def example_catalog_def raise_def
        TypeError_def JSONDecodeError_def builtin_exc_def)

section \<open>Properties of the supervisor\<close>

lemma pop_index_of: "x \<in> set xs \<Longrightarrow> pop (index_of x xs) xs = remove1 x xs"
  by (induction xs) (auto simp: pop_def index_of_def)

lemma replace_step:
  assumes "supervised m" "x \<in> set (asyncs m)"
  shows "start_process (m\<lparr>asyncs := pop (index_of x (asyncs m)) (asyncs m),
                           warnings := warnings m @ [x]\<rparr>) =
         m\<lparr>asyncs := remove1 x (asyncs m) @ [launched m], launched := launched m + 1,
           warnings := warnings m @ [x]\<rparr>"
  using assms by (simp add: start_process_def pop_index_of)

lemma replace_supervised:
  assumes "supervised m" "x \<in> set (asyncs m)"
  shows "supervised (m\<lparr>asyncs := remove1 x (asyncs m) @ [launched m], launched := launched m + 1,
           warnings := warnings m @ [x]\<rparr>)"
proof -
  have f: "launched m \<notin> set (asyncs m)" using assms(1) by (auto simp: supervised_def list_all_iff)
  have l: "length (remove1 x (asyncs m)) = length (asyncs m) - 1"
    using assms(2) by (simp add: length_remove1)
  have p: "length (asyncs m) > 0" using assms(2) by (cases "asyncs m") auto
  show ?thesis using assms f l p
    by (auto simp: supervised_def list_all_iff dest: notin_set_remove1 less_SucI)
qed

lemma start_supervised_aux:
  "asyncs ((start_process ^^ k) (init_manager n)) = [0..<k] \<and>
   launched ((start_process ^^ k) (init_manager n)) = k \<and>
   warnings ((start_process ^^ k) (init_manager n)) = [] \<and>
   process_count ((start_process ^^ k) (init_manager n)) = n"
  by (induction k) (auto simp: start_process_def init_manager_def)

lemma run_start_state:
  "run_start (init_manager n) =
     \<lparr>process_count = n, asyncs = [0..<n], launched = n, warnings = []\<rparr>"
proof -
  have "process_count (init_manager n) = n" by (simp add: init_manager_def)
  then show ?thesis using start_supervised_aux[of n n] by (simp add: run_start_def)
qed

lemma run_start_supervised:
  "supervised (run_start (init_manager n)) \<and> process_count (run_start (init_manager n)) = n"
  by (simp add: run_start_state supervised_def list_all_iff)

lemma poll_from_inv:
  "poll_from ready i m = Some m' \<Longrightarrow>
   supervised m \<longrightarrow> supervised m' \<and> process_count m' = process_count m"
proof (induction ready i m m' rule: poll_from.raw_induct[rotated 1, consumes 1, case_names step])
  case (step poll_from ready i m m')
  note 1 = step
  show ?case
  proof
    assume s: "supervised m"
    show "supervised m' \<and> process_count m' = process_count m"
    proof (cases "i < length (asyncs m)")
      case False
      with 1(2) s show ?thesis by simp
    next
      case True
      let ?x = "asyncs m ! i"
      have x: "?x \<in> set (asyncs m)" using True by simp
      show ?thesis
      proof (cases "ready ?x")
        case False
        with 1(2) True have "poll_from ready (i + 1) m = Some m'" by (simp add: Let_def)
        from 1(1)[OF this] s show ?thesis by simp
      next
        case r: True
        let ?m1 = "m\<lparr>asyncs := remove1 ?x (asyncs m) @ [launched m], launched := launched m + 1,
           warnings := warnings m @ [?x]\<rparr>"
        from 1(2) True r have "poll_from ready (i + 1) ?m1 = Some m'"
          using replace_step[OF s x] by (simp add: Let_def)
        from 1(1)[OF this] replace_supervised[OF s x] show ?thesis by simp
      qed
    qed
  qed
qed

lemma run_polls_inv:
  "run_polls readys k m = Some m' \<Longrightarrow> supervised m \<Longrightarrow>
   supervised m' \<and> process_count m' = process_count m"
proof (induction k arbitrary: m)
  case 0
  then show ?case by simp
next
  case (Suc k)
  from Suc.prems(1) obtain m1 where p: "poll (readys (Suc k)) m = Some m1"
    and r: "run_polls readys k m1 = Some m'"
    by (auto split: option.splits)
  from poll_from_inv[OF p[unfolded poll_def]] Suc.prems(2)
  have "supervised m1" "process_count m1 = process_count m" by simp_all
  with Suc.IH[OF r] show ?case by simp
qed

lemma poll_from_none_ready:
  "(\<forall>j. i \<le> j \<and> j < length (asyncs m) \<longrightarrow> \<not> ready (asyncs m ! j)) \<Longrightarrow>
   poll_from ready i m = Some m"
proof (induction "length (asyncs m) - i" arbitrary: i)
  case 0
  then show ?case by (subst poll_from.simps) simp
next
  case (Suc d)
  then have i: "i < length (asyncs m)" and n: "\<not> ready (asyncs m ! i)" by auto
  have "poll_from ready (i + 1) m = Some m"
    using Suc by (intro Suc.hyps(1)) auto
  then show ?case using i n by (subst poll_from.simps) (simp add: Let_def)
qed

lemma poll_from_first_ready:
  "p < length (asyncs m) \<Longrightarrow> i \<le> p \<Longrightarrow> ready (asyncs m ! p) \<Longrightarrow>
   (\<forall>j. i \<le> j \<and> j < p \<longrightarrow> \<not> ready (asyncs m ! j)) \<Longrightarrow>
   poll_from ready i m =
   poll_from ready (p + 1)
     (start_process (m\<lparr>asyncs := pop (index_of (asyncs m ! p) (asyncs m)) (asyncs m),
                        warnings := warnings m @ [asyncs m ! p]\<rparr>))"
proof (induction "p - i" arbitrary: i)
  case 0
  then have "i = p" by simp
  then show ?case using 0 by (subst poll_from.simps) (simp add: Let_def)
next
  case (Suc d)
  then have i: "i < length (asyncs m)" "i < p" and n: "\<not> ready (asyncs m ! i)" by auto
  have "poll_from ready (i + 1) m =
   poll_from ready (p + 1)
     (start_process (m\<lparr>asyncs := pop (index_of (asyncs m ! p) (asyncs m)) (asyncs m),
                        warnings := warnings m @ [asyncs m ! p]\<rparr>))"
    using Suc by (intro Suc.hyps(1)) auto
  then show ?case using i n by (subst poll_from.simps) (simp add: Let_def)
qed

text \<open>Every pass returns: a replacement keeps the length of the list.\<close>

lemma index_of_less: "x \<in> set xs \<Longrightarrow> index_of x xs < length xs"
  by (induction xs) (auto simp: index_of_def)

lemma poll_from_returns: "\<exists>m'. poll_from ready i m = Some m'"
proof (induction "length (asyncs m) - i" arbitrary: i m)
  case 0
  then show ?case by (subst poll_from.simps) simp
next
  case (Suc d)
  then have i: "i < length (asyncs m)" by simp
  let ?x = "asyncs m ! i"
  let ?m1 = "start_process (m\<lparr>asyncs := pop (index_of ?x (asyncs m)) (asyncs m),
                                warnings := warnings m @ [?x]\<rparr>)"
  have "index_of ?x (asyncs m) < length (asyncs m)" using i by (simp add: index_of_less)
  then have l: "length (asyncs ?m1) = length (asyncs m)"
    by (simp add: start_process_def pop_def)
  have a: "\<exists>m'. poll_from ready (i + 1) m = Some m'"
    using Suc.hyps(2) by (intro Suc.hyps(1)) simp
  have b: "\<exists>m'. poll_from ready (i + 1) ?m1 = Some m'"
    using Suc.hyps(2) l by (intro Suc.hyps(1)) simp
  show ?case using i a b by (subst poll_from.simps) (simp add: Let_def)
qed

text \<open>
  Claim C6. In any state the supervisor reaches after its \<open>process_count\<close> launches and
  some number of passes, let exactly one tracked task be complete and its replacement not
  complete at once. Then the next pass ends; it drops the completed task from the tracked
  list and appends one new task; every other tracked task stays tracked; exactly
  \<open>process_count\<close> tasks are tracked again; and the lifetime launch count is
  \<open>process_count\<close> plus the number of replacements reported. A pass is what the
  loop does once per poll interval; the interval itself is not modelled.
\<close>

theorem supervisor_replaces_completed_worker:
  assumes reach: "run_polls readys k (run_start (init_manager n)) = Some m"
    and x: "x \<in> set (asyncs m)" "ready x"
    and others: "\<forall>y \<in> set (asyncs m). y \<noteq> x \<longrightarrow> \<not> ready y"
    and fresh: "\<not> ready (launched m)"
  shows "\<exists>m'. poll ready m = Some m' \<and>
           asyncs m' = remove1 x (asyncs m) @ [launched m] \<and>
           x \<notin> set (asyncs m') \<and>
           (\<forall>y \<in> set (asyncs m). y \<noteq> x \<longrightarrow> y \<in> set (asyncs m')) \<and>
           length (asyncs m') = n \<and>
           warnings m' = warnings m @ [x] \<and>
           launched m' = launched m + 1 \<and>
           launched m' = n + length (warnings m')"
proof -
  from run_polls_inv[OF reach] run_start_supervised[of n]
  have s: "supervised m" and pc: "process_count m = n" by simp_all
  let ?m1 = "m\<lparr>asyncs := remove1 x (asyncs m) @ [launched m], launched := launched m + 1,
           warnings := warnings m @ [x]\<rparr>"
  from x(1) obtain p where p: "p < length (asyncs m)" "asyncs m ! p = x"
    by (auto simp: in_set_conv_nth)
  have d: "distinct (asyncs m)" using s by (simp add: supervised_def)
  have before: "\<forall>j. 0 \<le> j \<and> j < p \<longrightarrow> \<not> ready (asyncs m ! j)"
  proof (intro allI impI)
    fix j assume j: "0 \<le> j \<and> j < p"
    then have "asyncs m ! j \<noteq> x" using p d by (auto simp: nth_eq_iff_index_eq)
    moreover have "asyncs m ! j \<in> set (asyncs m)" using j p by simp
    ultimately show "\<not> ready (asyncs m ! j)" using others by blast
  qed
  have step: "poll_from ready 0 m = poll_from ready (p + 1) ?m1"
    using poll_from_first_ready[OF p(1) _ _ before] x(2) p(2) replace_step[OF s x(1)]
    by simp
  have s1: "supervised ?m1" by (rule replace_supervised[OF s x(1)])
  have nx: "x \<notin> set (asyncs ?m1)"
    using d s x(1) by (auto simp: supervised_def list_all_iff)
  have quiet: "\<forall>y \<in> set (asyncs ?m1). \<not> ready y"
    using others fresh nx by (auto dest: notin_set_remove1)
  have rest: "poll_from ready (p + 1) ?m1 = Some ?m1"
  proof (rule poll_from_none_ready, intro allI impI)
    fix j assume "p + 1 \<le> j \<and> j < length (asyncs ?m1)"
    then have "asyncs ?m1 ! j \<in> set (asyncs ?m1)" by (intro nth_mem) simp
    with quiet show "\<not> ready (asyncs ?m1 ! j)" by blast
  qed
  have res: "poll ready m = Some ?m1" using step rest by (simp add: poll_def)
  have keep: "\<forall>y \<in> set (asyncs m). y \<noteq> x \<longrightarrow> y \<in> set (asyncs ?m1)" by auto
  have len: "length (asyncs ?m1) = n" "launched ?m1 = n + length (warnings ?m1)"
    using s1 pc by (simp_all add: supervised_def)
  show ?thesis
    using res nx keep len by (intro exI[of _ ?m1]) simp
qed

theorem supervisor_replaces_completed_worker_witness:
  "run_polls (\<lambda>j y. False) 1 (run_start (init_manager 3)) =
     Some \<lparr>process_count = 3, asyncs = [0, 1, 2], launched = 3, warnings = []\<rparr> \<and>
   (1::nat) \<in> set [0, 1, 2] \<and>
   poll (\<lambda>y. y = 1) \<lparr>process_count = 3, asyncs = [0, 1, 2], launched = 3, warnings = []\<rparr> =
     Some \<lparr>process_count = 3, asyncs = [0, 2, 3], launched = 4, warnings = [1]\<rparr>"
proof -
  let ?m = "\<lparr>process_count = 3, asyncs = [0, 1, 2], launched = 3, warnings = []\<rparr>"
  have u: "[0..<3] = [0, 1, 2::nat]" by (simp add: upt_rec)
  have st: "run_start (init_manager 3) = ?m" by (simp add: run_start_state u)
  have p0: "poll (\<lambda>y. False) ?m = Some ?m"
    unfolding poll_def by (rule poll_from_none_ready) simp
  have r: "run_polls (\<lambda>j y. False) 1 (run_start (init_manager 3)) = Some ?m"
    using p0 by (simp add: st)
  have a: "(1::nat) \<in> set (asyncs ?m)" by simp
  have b: "(\<lambda>y. y = 1) (1::nat)" by simp
  have c: "\<forall>y \<in> set (asyncs ?m). y \<noteq> 1 \<longrightarrow> \<not> (\<lambda>y. y = 1) y" by simp
  have d: "\<not> (\<lambda>y. y = 1) (launched ?m)" by simp
  from supervisor_replaces_completed_worker[OF r a b c d]
  obtain m' where m': "poll (\<lambda>y. y = 1) ?m = Some m'"
    "asyncs m' = remove1 1 (asyncs ?m) @ [launched ?m]" "warnings m' = warnings ?m @ [1]"
    "launched m' = launched ?m + 1" "length (asyncs m') = 3"
    by blast
  from poll_from_inv[OF m'(1)[unfolded poll_def]] run_polls_inv[OF r] run_start_supervised[of 3]
  have "process_count m' = 3" by simp
  with m' have "m' = \<lparr>process_count = 3, asyncs = [0, 2, 3], launched = 4, warnings = [1]\<rparr>"
    by (cases m') simp
  with m'(1) r a show ?thesis by simp
qed

section \<open>Properties of the protocol engine\<close>

lemmas engine_defs = wrap_on_message_def dispatch_def call_method_def expected_method_def
  error_result_def dict_get_def dict_has_def py_iter_def key_error_def raise_def
  example_rpc_service_def on_ping_def on_fail_def on_attr_def on_message_def
  getattr_service_def base_attributes_def ack_def acknowledged_def call_on_message_def
  arg_error_def
  AttributeError_def KeyError_def IndexError_def TypeError_def ValueError_def builtin_exc_def
  MessageStateError_def str_type_def Let_def

lemma rpc_branch:
  assumes "expected_method (routing_key msg) = Inr m"
    and "dict_get body ''method'' = Some (JStr m)"
  shows "wrap_on_message svc (JDict body) msg =
     (case dispatch svc body m of
        (evs, Inl e) \<Rightarrow> (evs, Some e)
      | (evs, Inr result) \<Rightarrow>
          (case dict_get body ''id'' of
             None \<Rightarrow> (evs, Some (key_error ''id''))
           | Some ident \<Rightarrow>
               (case ack evs of
                  (evs', Some e) \<Rightarrow> (evs', Some e)
                | (evs', None) \<Rightarrow>
                    (evs' @
                     (case reply_to msg of
                        None \<Rightarrow> []
                      | Some q \<Rightarrow>
                          (if q \<noteq> [] then
                             [SimpleQueue q [], Put q (JDict [(''result'', result)]), Close q]
                           else [])),
                     None))))"
proof -
  have "dict_has body ''method''" using assms(2) by (simp add: dict_has_def dict_get_def)
  then show ?thesis using assms by (simp add: wrap_on_message_def)
qed

lemma call_method_events:
  "call_method h name params = (evs, r) \<Longrightarrow>
   evs = [] \<or> (\<exists>args hevs. evs = Invoke name args # hevs \<and> h args = (hevs, r))"
  by (cases params) (auto simp: call_method_def split: if_splits sum.splits prod.splits)

lemma dispatch_events:
  "dispatch svc body m = (evs, r) \<Longrightarrow>
   evs = [] \<or> (\<exists>args hevs. evs = Invoke (''on_'' @ m) args # hevs)"
  by (auto simp: dispatch_def Let_def split: option.splits sum.splits if_splits prod.splits
           dest: call_method_events)

subsection \<open>Error codes\<close>

text \<open>
  Claim C1, as stated, fails: the handler \<open>on_attr\<close> is resolved and entered, raises
  \<open>AttributeError\<close>, and the response carries the code -32601 of a missing method, not
  -32600; and \<open>error.data.exception\<close> holds \<open>str(type(error))\<close>, the text
  \<open><class 'AttributeError'>\<close>, not the type's name.
\<close>

theorem handler_attribute_error_counterexample:
  "getattr_service example_rpc_service ''on_attr'' = Some on_attr \<and>
   on_attr (Positional []) = ([], Inl (raise AttributeError ''boom'')) \<and>
   wrap_on_message example_rpc_service
     (JDict [(''jsonrpc'', JStr ''2.0''), (''id'', JStr ''abc''), (''method'', JStr ''attr''),
             (''params'', JList [])])
     \<lparr>routing_key = ''storage.attr'', reply_to = Some ''response-abc''\<rparr> =
   ([Invoke ''on_attr'' (Positional []), Ack, SimpleQueue ''response-abc'' [],
     Put ''response-abc''
       (JDict [(''result'',
          JDict [(''jsonrpc'', JStr ''2.0''), (''id'', JStr ''abc''),
                 (''error'',
                  JDict [(''code'', JNum (- 32601)), (''message'', JStr ''boom''),
                         (''data'', JDict [(''exception'', JStr (str_type AttributeError))])])])]),
     Close ''response-abc''], None) \<and>
   - 32601 \<noteq> (- 32600 :: int) \<and>
   str_type AttributeError \<noteq> cls_name AttributeError"
  by (simp add: engine_defs)

text \<open>
  Claim C1, amended. For an RPC message whose body carries an \<open>id\<close> and that names a
  reply address: when the service has no attribute \<open>on_<method>\<close>, no handler is
  entered and the response carries code -32601; when the handler is entered and raises
  an exception derived from \<open>Exception\<close> whose class is not \<open>AttributeError\<close>
  itself, the error object carries code -32600, \<open>error.message\<close> is the exception's
  text and \<open>error.data.exception\<close> is \<open>str(type(error))\<close>. The error object is the
  value under \<open>result\<close> of the dict put on the reply queue; it is put there when the
  handler has left the message unacknowledged, and otherwise \<open>message.ack()\<close> on line
  239 raises after the error object is built.
\<close>

theorem dispatch_error_codes:
  assumes rk: "expected_method (routing_key msg) = Inr m"
    and meth: "dict_get body ''method'' = Some (JStr m)"
    and ident: "dict_get body ''id'' = Some ident"
    and rt: "reply_to msg = Some q" "q \<noteq> []"
  shows "(getattr_service svc (''on_'' @ m) = None \<longrightarrow>
            wrap_on_message svc (JDict body) msg =
            ([Ack, SimpleQueue q [],
              Put q (JDict [(''result'',
                 JDict [(''jsonrpc'', JStr ''2.0''), (''id'', ident),
                        (''error'',
                         JDict [(''code'', JNum (- 32601)),
                                (''message'',
                                 JStr ([CHR 0x27] @ class_name svc @ [CHR 0x27] @
                                       '' object has no attribute '' @
                                       [CHR 0x27] @ ''on_'' @ m @ [CHR 0x27])),
                                (''data'',
                                 JDict [(''exception'', JStr (str_type AttributeError))])])])]),
              Close q], None)) \<and>
         (\<forall>h ps args hevs e.
            getattr_service svc (''on_'' @ m) = Some h \<and>
            dict_get body ''params'' = Some ps \<and>
            call_method h (''on_'' @ m) ps = (Invoke (''on_'' @ m) args # hevs, Inl e) \<and>
            cls_is_Exception (exc_class e) \<and> exc_class e \<noteq> AttributeError \<longrightarrow>
            dispatch svc body m =
              (Invoke (''on_'' @ m) args # hevs,
               Inr (JDict [(''jsonrpc'', JStr ''2.0''), (''id'', ident),
                        (''error'',
                         JDict [(''code'', JNum (- 32600)),
                                (''message'', JStr (exc_text e)),
                                (''data'',
                                 JDict [(''exception'', JStr (str_type (exc_class e)))])])])) \<and>
            (\<not> acknowledged hevs \<longrightarrow>
               wrap_on_message svc (JDict body) msg =
               (Invoke (''on_'' @ m) args # hevs @
                [Ack, SimpleQueue q [],
                 Put q (JDict [(''result'',
                 JDict [(''jsonrpc'', JStr ''2.0''), (''id'', ident),
                        (''error'',
                         JDict [(''code'', JNum (- 32600)),
                                (''message'', JStr (exc_text e)),
                                (''data'',
                                 JDict [(''exception'', JStr (str_type (exc_class e)))])])])]),
                 Close q], None)) \<and>
            (acknowledged hevs \<longrightarrow>
               wrap_on_message svc (JDict body) msg =
               (Invoke (''on_'' @ m) args # hevs,
                Some (raise MessageStateError ''Message already acknowledged with state: ACK''))))"
proof (intro conjI impI allI)
  assume "getattr_service svc (''on_'' @ m) = None"
  then have "dispatch svc body m =
     ([], Inr (error_result ident (raise AttributeError
                        ([CHR 0x27] @ class_name svc @ [CHR 0x27] @
                         '' object has no attribute '' @ [CHR 0x27] @ ''on_'' @ m @ [CHR 0x27]))))"
    using ident by (simp add: dispatch_def Let_def raise_def AttributeError_def builtin_exc_def)
  then show "wrap_on_message svc (JDict body) msg =
            ([Ack, SimpleQueue q [],
              Put q (JDict [(''result'',
                 JDict [(''jsonrpc'', JStr ''2.0''), (''id'', ident),
                        (''error'',
                         JDict [(''code'', JNum (- 32601)),
                                (''message'',
                                 JStr ([CHR 0x27] @ class_name svc @ [CHR 0x27] @
                                       '' object has no attribute '' @
                                       [CHR 0x27] @ ''on_'' @ m @ [CHR 0x27])),
                                (''data'',
                                 JDict [(''exception'', JStr (str_type AttributeError))])])])]),
              Close q], None)"
    using rt ident
    by (simp add: rpc_branch[OF rk meth] error_result_def raise_def ack_def acknowledged_def)
next
  fix h ps args hevs e
  assume a: "getattr_service svc (''on_'' @ m) = Some h \<and>
            dict_get body ''params'' = Some ps \<and>
            call_method h (''on_'' @ m) ps = (Invoke (''on_'' @ m) args # hevs, Inl e) \<and>
            cls_is_Exception (exc_class e) \<and> exc_class e \<noteq> AttributeError"
  then have d: "dispatch svc body m =
      (Invoke (''on_'' @ m) args # hevs, Inr (error_result ident e))"
    using ident by (simp add: dispatch_def Let_def)
  show "dispatch svc body m =
              (Invoke (''on_'' @ m) args # hevs,
               Inr (JDict [(''jsonrpc'', JStr ''2.0''), (''id'', ident),
                        (''error'',
                         JDict [(''code'', JNum (- 32600)),
                                (''message'', JStr (exc_text e)),
                                (''data'',
                                 JDict [(''exception'', JStr (str_type (exc_class e)))])])]))"
    using d a by (simp add: error_result_def)
  show "wrap_on_message svc (JDict body) msg =
               (Invoke (''on_'' @ m) args # hevs @
                [Ack, SimpleQueue q [],
                 Put q (JDict [(''result'',
                 JDict [(''jsonrpc'', JStr ''2.0''), (''id'', ident),
                        (''error'',
                         JDict [(''code'', JNum (- 32600)),
                                (''message'', JStr (exc_text e)),
                                (''data'',
                                 JDict [(''exception'', JStr (str_type (exc_class e)))])])])]),
                 Close q], None)" if "\<not> acknowledged hevs"
    using that d rt ident a
    by (simp add: rpc_branch[OF rk meth] error_result_def ack_def acknowledged_def)
  show "wrap_on_message svc (JDict body) msg =
               (Invoke (''on_'' @ m) args # hevs,
                Some (raise MessageStateError ''Message already acknowledged with state: ACK''))"
    if "acknowledged hevs"
    using that d rt ident a
    by (simp add: rpc_branch[OF rk meth] ack_def acknowledged_def)
qed

theorem dispatch_error_codes_witness:
  "expected_method (routing_key \<lparr>routing_key = ''storage.nope'', reply_to = Some ''response-1''\<rparr>) =
     Inr ''nope'' \<and>
   getattr_service example_rpc_service ''on_nope'' = None \<and>
   wrap_on_message example_rpc_service
     (JDict [(''id'', JNum 1), (''method'', JStr ''nope''), (''params'', JDict [])])
     \<lparr>routing_key = ''storage.nope'', reply_to = Some ''response-1''\<rparr> =
     ([Ack, SimpleQueue ''response-1'' [],
       Put ''response-1'' (JDict [(''result'',
          JDict [(''jsonrpc'', JStr ''2.0''), (''id'', JNum 1),
                 (''error'',
                  JDict [(''code'', JNum (- 32601)),
                         (''message'',
                          JStr ([CHR 0x27] @ ''ExampleService'' @ [CHR 0x27] @
                                '' object has no attribute '' @
                                [CHR 0x27] @ ''on_nope'' @ [CHR 0x27])),
                         (''data'', JDict [(''exception'', JStr (str_type AttributeError))])])])]),
       Close ''response-1''], None) \<and>
   getattr_service example_rpc_service ''on_fail'' = Some on_fail \<and>
   call_method on_fail ''on_fail'' (JDict []) =
     ([Invoke ''on_fail'' (Keywords [])], Inl (raise ValueError ''boom'')) \<and>
   \<not> acknowledged [] \<and>
   wrap_on_message example_rpc_service
     (JDict [(''id'', JNum 2), (''method'', JStr ''fail''), (''params'', JDict [])])
     \<lparr>routing_key = ''storage.fail'', reply_to = Some ''response-2''\<rparr> =
     ([Invoke ''on_fail'' (Keywords []), Ack, SimpleQueue ''response-2'' [],
       Put ''response-2'' (JDict [(''result'',
          JDict [(''jsonrpc'', JStr ''2.0''), (''id'', JNum 2),
                 (''error'',
                  JDict [(''code'', JNum (- 32600)),
                         (''message'', JStr ''boom''),
                         (''data'', JDict [(''exception'', JStr (str_type ValueError))])])])]),
       Close ''response-2''], None)"
proof -
  let ?b1 = "[(''id'', JNum 1), (''method'', JStr ''nope''), (''params'', JDict [])]"
  let ?m1 = "\<lparr>routing_key = ''storage.nope'', reply_to = Some ''response-1''\<rparr>"
  let ?b2 = "[(''id'', JNum 2), (''method'', JStr ''fail''), (''params'', JDict [])]"
  let ?m2 = "\<lparr>routing_key = ''storage.fail'', reply_to = Some ''response-2''\<rparr>"
  have r1: "expected_method (routing_key ?m1) = Inr ''nope''" by (simp add: expected_method_def)
  have r2: "expected_method (routing_key ?m2) = Inr ''fail''" by (simp add: expected_method_def)
  have me1: "dict_get ?b1 ''method'' = Some (JStr ''nope'')" by (simp add: dict_get_def)
  have me2: "dict_get ?b2 ''method'' = Some (JStr ''fail'')" by (simp add: dict_get_def)
  have i1: "dict_get ?b1 ''id'' = Some (JNum 1)" by (simp add: dict_get_def)
  have i2: "dict_get ?b2 ''id'' = Some (JNum 2)" by (simp add: dict_get_def)
  have q1: "reply_to ?m1 = Some ''response-1''" "''response-1'' \<noteq> []" by simp_all
  have q2: "reply_to ?m2 = Some ''response-2''" "''response-2'' \<noteq> []" by simp_all
  have a1: "getattr_service example_rpc_service (''on_'' @ ''nope'') = None"
    by (simp add: example_rpc_service_def getattr_service_def base_attributes_def)
  have a2: "getattr_service example_rpc_service (''on_'' @ ''fail'') = Some on_fail"
    by (simp add: example_rpc_service_def getattr_service_def)
  have p2: "dict_get ?b2 ''params'' = Some (JDict [])" by (simp add: dict_get_def)
  have c2: "call_method on_fail (''on_'' @ ''fail'') (JDict []) =
     (Invoke (''on_'' @ ''fail'') (Keywords []) # [], Inl (raise ValueError ''boom''))"
    by (simp add: call_method_def on_fail_def dict_has_def)
  have e2: "cls_is_Exception (exc_class (raise ValueError ''boom''))"
    "exc_class (raise ValueError ''boom'') \<noteq> AttributeError"
    by (simp_all add: raise_def ValueError_def AttributeError_def builtin_exc_def)
  have n: "\<not> acknowledged []" by (simp add: acknowledged_def)
  note t1 = dispatch_error_codes[OF r1 me1 i1 q1, of example_rpc_service, THEN conjunct1,
              rule_format, OF a1]
  note t2 = dispatch_error_codes[OF r2 me2 i2 q2, of example_rpc_service, THEN conjunct2,
              rule_format, of on_fail "JDict []" "Keywords []" "[]" "raise ValueError ''boom''",
              THEN conjunct2, THEN conjunct1, rule_format]
  have t2': "wrap_on_message example_rpc_service (JDict ?b2) ?m2 =
     ([Invoke ''on_fail'' (Keywords []), Ack, SimpleQueue ''response-2'' [],
       Put ''response-2'' (JDict [(''result'',
          JDict [(''jsonrpc'', JStr ''2.0''), (''id'', JNum 2),
                 (''error'',
                  JDict [(''code'', JNum (- 32600)),
                         (''message'', JStr ''boom''),
                         (''data'', JDict [(''exception'', JStr (str_type ValueError))])])])]),
       Close ''response-2''], None)"
    using t2 a2 p2 c2 e2 n by (simp add: raise_def)
  have cn: "class_name example_rpc_service = ''ExampleService''"
    by (simp add: example_rpc_service_def)
  show ?thesis using r1 a1 a2 c2 n t1 t2' cn by simp
qed

subsection \<open>The reply envelope\<close>

text \<open>
  Claim C2. The claim asks for an envelope \<open>{jsonrpc, id, result}\<close> with the request's
  id on the reply queue. For a request with id \<open>abc\<close> that \<open>on_ping\<close> answers, the code
  puts \<open>{'result': 'pong'}\<close>: no \<open>id\<close> and no \<open>jsonrpc\<close> key. \<open>respond\<close>, the other
  sender of replies, builds the envelope the claim describes.
\<close>

theorem reply_envelope_without_id:
  "wrap_on_message example_rpc_service
     (JDict [(''jsonrpc'', JStr ''2.0''), (''id'', JStr ''abc''), (''method'', JStr ''ping''),
             (''params'', JDict [])])
     \<lparr>routing_key = ''storage.ping'', reply_to = Some ''response-abc''\<rparr> =
   ([Invoke ''on_ping'' (Keywords []), Ack, SimpleQueue ''response-abc'' [],
     Put ''response-abc'' (JDict [(''result'', JStr ''pong'')]),
     Close ''response-abc''], None) \<and>
   dict_get [(''result'', JStr ''pong'')] ''id'' = None \<and>
   dict_get [(''result'', JStr ''pong'')] ''jsonrpc'' = None \<and>
   respond ''response-abc'' (JStr ''abc'') (JStr ''pong'') [] =
   [SimpleQueue ''response-abc'' [],
    Put ''response-abc''
      (JDict [(''jsonrpc'', JStr ''2.0''), (''id'', JStr ''abc''), (''result'', JStr ''pong'')]),
    Close ''response-abc'']"
  by (simp add: engine_defs respond_def)

subsection \<open>Exceptions that leave the callback\<close>

text \<open>
  For an RPC message whose body carries an \<open>id\<close> and whose handler leaves the message
  unacknowledged, every exception derived from \<open>Exception\<close> that arises while the
  handler is resolved and called ends in a result, and the callback returns. Whenever the
  callback returns from an RPC message, the message was acknowledged once, after the
  handler and before anything is put on the reply queue.
\<close>

lemma wrap_on_message_returns:
  assumes rk: "expected_method (routing_key msg) = Inr m"
    and meth: "dict_get body ''method'' = Some (JStr m)"
    and ident: "dict_get body ''id'' = Some ident"
    and exc: "\<forall>evs e. dispatch svc body m = (evs, Inl e) \<longrightarrow> cls_is_Exception (exc_class e)"
    and unacked: "\<not> acknowledged (fst (dispatch svc body m))"
  shows "\<exists>evs. wrap_on_message svc (JDict body) msg = (evs, None)"
proof -
  obtain d r where d: "dispatch svc body m = (d, r)" by (cases "dispatch svc body m")
  have "\<exists>result. r = Inr result"
  proof (cases r)
    case (Inl e)
    with d exc have c: "cls_is_Exception (exc_class e)" by blast
    from d Inl have "\<not> cls_is_Exception (exc_class e) \<or> dict_get body ''id'' = None"
      by (auto simp: dispatch_def Let_def split: option.splits sum.splits if_splits prod.splits)
    with c ident show ?thesis by simp
  next
    case (Inr result)
    then show ?thesis by blast
  qed
  then show ?thesis using d ident unacked by (auto simp: rpc_branch[OF rk meth] ack_def)
qed

lemma wrap_on_message_acknowledges_once:
  assumes rk: "expected_method (routing_key msg) = Inr m"
    and meth: "dict_get body ''method'' = Some (JStr m)"
    and ret: "wrap_on_message svc (JDict body) msg = (evs, None)"
  shows "\<exists>before after. evs = before @ [Ack] @ after \<and>
           before = fst (dispatch svc body m) \<and>
           Ack \<notin> set before \<and> Ack \<notin> set after \<and>
           list_all (\<lambda>ev. \<forall>n a. ev \<noteq> Invoke n a) after \<and>
           count_list evs Ack = 1"
proof -
  obtain d r where d: "dispatch svc body m = (d, r)" by (cases "dispatch svc body m")
  from ret d obtain result where r: "r = Inr result"
    by (cases r) (auto simp: rpc_branch[OF rk meth])
  from ret d r obtain ident where i: "dict_get body ''id'' = Some ident"
    by (cases "dict_get body ''id''") (auto simp: rpc_branch[OF rk meth])
  from ret d r i have n: "Ack \<notin> set d"
    by (auto simp: rpc_branch[OF rk meth] ack_def acknowledged_def split: if_splits)
  let ?after = "(case reply_to msg of
                   None \<Rightarrow> []
                 | Some q \<Rightarrow>
                     (if q \<noteq> [] then
                        [SimpleQueue q [], Put q (JDict [(''result'', result)]), Close q]
                      else []))"
  have e: "evs = d @ [Ack] @ ?after"
    using ret d r i n by (simp add: rpc_branch[OF rk meth] ack_def acknowledged_def)
  have a: "Ack \<notin> set ?after" "list_all (\<lambda>ev. \<forall>n a. ev \<noteq> Invoke n a) ?after"
    by (auto split: option.splits)
  have c: "count_list evs Ack = 1"
    using e n a(1) by (simp add: count_list_0_iff)
  from e a n c d show ?thesis by (intro exI[of _ d] exI[of _ ?after]) simp
qed

text \<open>
  A handler that acknowledges the message itself: with the method \<open>message\<close> the
  handler found is \<open>on_message\<close> of the base class, which acknowledges, and
  \<open>message.ack()\<close> on line 239 then raises \<open>MessageStateError\<close>; nothing is put on
  the reply queue. A body that is not an RPC call goes to \<open>on_message\<close> and is
  acknowledged there.
\<close>

lemma inherited_on_message_acknowledged_twice:
  "wrap_on_message example_rpc_service
     (JDict [(''jsonrpc'', JStr ''2.0''), (''id'', JStr ''abc''), (''method'', JStr ''message''),
             (''params'', JDict [(''body'', JStr ''x'')])])
     \<lparr>routing_key = ''storage.message'', reply_to = Some ''response-abc''\<rparr> =
   ([Invoke ''on_message'' (Keywords [(''body'', JStr ''x'')]), Ack],
    Some (raise MessageStateError ''Message already acknowledged with state: ACK''))"
  by (simp add: engine_defs)

lemma unknown_message_acknowledged:
  "wrap_on_message example_rpc_service (JStr ''hello'')
     \<lparr>routing_key = ''storage.save'', reply_to = None\<rparr> =
   ([Invoke ''on_message'' (Positional [JStr ''hello'']), Ack], None)"
  by (simp add: engine_defs)

text \<open>
  Claim C3. The claim asks that no failure of a message leaves the callback. A body whose
  \<open>method\<close> matches but that has no \<open>id\<close>: \<open>on_fail\<close> raises, the \<open>except\<close> block
  reads \<open>body['id']\<close>, and \<open>KeyError\<close> leaves \<open>_wrap_on_message\<close> with nothing
  acknowledged and nothing sent. A routing key without a dot: \<open>IndexError\<close> leaves it on
  line 203, before the \<open>try\<close>.
\<close>

theorem malformed_message_propagates:
  "wrap_on_message example_rpc_service
     (JDict [(''jsonrpc'', JStr ''2.0''), (''method'', JStr ''fail''), (''params'', JDict [])])
     \<lparr>routing_key = ''storage.fail'', reply_to = Some ''response-abc''\<rparr> =
   ([Invoke ''on_fail'' (Keywords [])], Some (key_error ''id'')) \<and>
   wrap_on_message example_rpc_service
     (JDict [(''jsonrpc'', JStr ''2.0''), (''id'', JStr ''abc''), (''method'', JStr ''ping''),
             (''params'', JDict [])])
     \<lparr>routing_key = ''ping'', reply_to = Some ''response-abc''\<rparr> =
   ([], Some (raise IndexError ''list index out of range''))"
  by (simp add: engine_defs)

text \<open>
  Claim C4. The claim asks for exactly one acknowledgment of every RPC message. A body
  whose \<open>method\<close> matches but that has no \<open>id\<close>: \<open>on_ping\<close> returns, the log call of
  line 237 reads \<open>body['id']\<close>, and \<open>KeyError\<close> leaves \<open>_wrap_on_message\<close> before
  \<open>message.ack()\<close> on line 239. The message is not acknowledged.
\<close>

theorem unacknowledged_without_id:
  "wrap_on_message example_rpc_service
     (JDict [(''jsonrpc'', JStr ''2.0''), (''method'', JStr ''ping''), (''params'', JDict [])])
     \<lparr>routing_key = ''storage.ping'', reply_to = None\<rparr> =
   ([Invoke ''on_ping'' (Keywords [])], Some (key_error ''id'')) \<and>
   count_list [Invoke ''on_ping'' (Keywords [])] Ack = 0"
  by (simp add: engine_defs)

subsection \<open>Outbound requests\<close>

text \<open>
  Without a reply, \<open>get\<close> raises \<open>Empty\<close> on line 335 and \<open>request\<close> ends there,
  before the only \<open>close\<close> on line 347: the reply queue stays open. With a reply whose
  payload is a dict the queue is closed.
\<close>

lemma request_no_reply_leaves_queue_open:
  assumes "kw_queue_opts kwargs \<noteq> Some []"
  shows "\<exists>sent. request new_id None rkey method params kwargs = (sent, Inl (raise Empty [])) \<and>
           open_queues sent [] = [''response-'' @ new_id] \<and>
           Close (''response-'' @ new_id) \<notin> set sent"
  using assms by (cases "kw_queue_opts kwargs"; cases "the (kw_queue_opts kwargs)")
                 (simp_all add: request_def Let_def)

lemma request_reply_closes_queue:
  assumes "kw_queue_opts kwargs \<noteq> Some []"
  shows "\<exists>sent. request new_id (Some (JDict kvs)) rkey method params kwargs =
                  (sent @ [AckReply, Close (''response-'' @ new_id)], Inr (JDict kvs)) \<and>
           open_queues (sent @ [AckReply, Close (''response-'' @ new_id)]) [] = []"
  using assms by (cases "kw_queue_opts kwargs"; cases "the (kw_queue_opts kwargs)")
                 (simp_all add: request_def Let_def)

text \<open>
  Claim C5. The claim asks that after a timeout the reply queue no longer exists. For
  \<open>request('storage.save', 'save', {})\<close> with no responder the code opens
  \<open>response-u1\<close>, publishes, waits with timeout 3 and raises \<open>Empty\<close> to the caller,
  once and without a retry, as the claim says; but the queue is never closed and is still
  open. On the reply path the same call closes the queue.
\<close>

theorem request_timeout_leaves_queue_open:
  "request ''u1'' None ''storage.save'' ''save'' (JDict [])
     \<lparr>kw_queue_opts = None, kw_others = []\<rparr> =
   ([SimpleQueue ''response-u1''
       [(''queue_opts'', JDict [(''auto_delete'', JBool True), (''durable'', JBool False)])],
     Publish (JDict [(''jsonrpc'', JStr ''2.0''), (''id'', JStr ''u1''),
                     (''method'', JStr ''save''), (''params'', JDict [])])
       ''storage.save'' ''response-u1'',
     Get ''response-u1'' True 3],
    Inl (raise Empty [])) \<and>
   open_queues
     [SimpleQueue ''response-u1''
       [(''queue_opts'', JDict [(''auto_delete'', JBool True), (''durable'', JBool False)])],
      Publish (JDict [(''jsonrpc'', JStr ''2.0''), (''id'', JStr ''u1''),
                     (''method'', JStr ''save''), (''params'', JDict [])])
       ''storage.save'' ''response-u1'',
      Get ''response-u1'' True 3] [] = [''response-u1''] \<and>
   request ''u1'' (Some (JDict [(''result'', JNum 7)])) ''storage.save'' ''save'' (JDict [])
     \<lparr>kw_queue_opts = None, kw_others = []\<rparr> =
   ([SimpleQueue ''response-u1''
       [(''queue_opts'', JDict [(''auto_delete'', JBool True), (''durable'', JBool False)])],
     Publish (JDict [(''jsonrpc'', JStr ''2.0''), (''id'', JStr ''u1''),
                     (''method'', JStr ''save''), (''params'', JDict [])])
       ''storage.save'' ''response-u1'',
     Get ''response-u1'' True 3, AckReply, Close ''response-u1''],
    Inr (JDict [(''result'', JNum 7)])) \<and>
   open_queues
     [SimpleQueue ''response-u1''
       [(''queue_opts'', JDict [(''auto_delete'', JBool True), (''durable'', JBool False)])],
      Publish (JDict [(''jsonrpc'', JStr ''2.0''), (''id'', JStr ''u1''),
                     (''method'', JStr ''save''), (''params'', JDict [])])
       ''storage.save'' ''response-u1'',
      Get ''response-u1'' True 3, AckReply, Close ''response-u1''] [] = []"
  by (simp add: request_def Let_def)

end
